theory Spec2Isabelle
  imports Main
begin

section \<open>Python values, exceptions and string helpers\<close>

text \<open>
  The module \<^verbatim>\<open>redis_cache/utils.py\<close> has two parts: the address parser
  (\<^verbatim>\<open>get_servers\<close>, \<^verbatim>\<open>parse_connection_kwargs\<close>) and the self-healing
  client proxy (\<^verbatim>\<open>MethodProxy\<close>, \<^verbatim>\<open>ClientProxy\<close>). Exceptions are values of
  \<open>py_exn\<close>; a function that may raise returns \<open>py_exn + 'a\<close> with \<open>Inl\<close> the
  exception.
\<close>

datatype config_msg =
    ServerNotIterable
      \<comment> \<open>\<^verbatim>\<open>'"server" must be an iterable or string'\<close>\<close>
  | PortNotInteger string string
      \<comment> \<open>\<^verbatim>\<open>"{0} from {1} must be an integer".format(repr(port), server)\<close>\<close>

datatype py_exn =
    ImproperlyConfigured config_msg
  | ValueError
  | TypeError
  | AttributeError
  | ConnectionError string
  | OtherError string

text \<open>
  The values stored in the keyword dictionary: \<^verbatim>\<open>None\<close>, a string, an integer, or a
  class object (\<^verbatim>\<open>SSLConnection\<close>), named by its class name.
\<close>

datatype pv = PNone | PStr string | PInt int | PClass string

text \<open>Python truthiness and the \<^verbatim>\<open>a or b\<close> expression on these values.\<close>

fun truthy :: "pv \<Rightarrow> bool" where
  "truthy PNone = False"
| "truthy (PStr s) = (s \<noteq> [])"
| "truthy (PInt n) = (n \<noteq> 0)"
| "truthy (PClass c) = True"

definition py_or :: "pv \<Rightarrow> pv \<Rightarrow> pv" where
  "py_or a b = (if truthy a then a else b)"

text \<open>\<^verbatim>\<open>sub in s\<close> for strings.\<close>

fun starts_with :: "string \<Rightarrow> string \<Rightarrow> bool" where
  "starts_with [] s = True"
| "starts_with (p # ps) [] = False"
| "starts_with (p # ps) (c # cs) = (p = c \<and> starts_with ps cs)"

fun contains :: "string \<Rightarrow> string \<Rightarrow> bool" where
  "contains sub [] = (sub = [])"
| "contains sub (c # cs) = (starts_with sub (c # cs) \<or> contains sub cs)"

text \<open>\<^verbatim>\<open>s.split(c)\<close> for a one-character separator: every occurrence splits.\<close>

fun split_on :: "char \<Rightarrow> string \<Rightarrow> string list" where
  "split_on c [] = [[]]"
| "split_on c (x # xs) =
     (if x = c then [] # split_on c xs
      else (case split_on c xs of
              [] \<Rightarrow> [[x]]
            | w # ws \<Rightarrow> (x # w) # ws))"

text \<open>
  \<^verbatim>\<open>s.split(c, 1)[1]\<close> when \<open>c\<close> occurs in \<open>s\<close> (the text after the first
  occurrence), \<^verbatim>\<open>s.rsplit(c, 1)\<close> when \<open>c\<close> occurs in \<open>s\<close> (the texts before and
  after the last occurrence), and \<^verbatim>\<open>s.replace(c, '')\<close>.
\<close>

definition after_first :: "char \<Rightarrow> string \<Rightarrow> string" where
  "after_first c s = tl (dropWhile (\<lambda>x. x \<noteq> c) s)"

definition before_first :: "char \<Rightarrow> string \<Rightarrow> string" where
  "before_first c s = takeWhile (\<lambda>x. x \<noteq> c) s"

definition rsplit1 :: "char \<Rightarrow> string \<Rightarrow> string \<times> string" where
  "rsplit1 c s =
     (rev (tl (dropWhile (\<lambda>x. x \<noteq> c) (rev s))), rev (takeWhile (\<lambda>x. x \<noteq> c) (rev s)))"

definition remove_char :: "char \<Rightarrow> string \<Rightarrow> string" where
  "remove_char c s = filter (\<lambda>x. x \<noteq> c) s"

section \<open>The server list\<close>

text \<open>
  \<^verbatim>\<open>
  def get_servers(location):
      if isinstance(location, six.string_types):
          servers = location.split(',')
      elif hasattr(location, '__iter__'):
          servers = location
      else:
          raise ImproperlyConfigured('"server" must be an iterable or string')
      return servers
  \<close>
  The argument is a string, an iterable of strings, or anything else.
\<close>

datatype location = LStr string | LIter "string list" | LOther

fun get_servers :: "location \<Rightarrow> py_exn + string list" where
  "get_servers (LStr s) = Inr (split_on CHR '','' s)"
| "get_servers (LIter xs) = Inr xs"
| "get_servers LOther = Inl (ImproperlyConfigured ServerNotIterable)"

section \<open>The address parser\<close>

subsection \<open>The library the parser calls\<close>

text \<open>
  \<^verbatim>\<open>parse_connection_kwargs\<close> calls \<^verbatim>\<open>urlparse\<close> and \<^verbatim>\<open>parse_qs\<close> of the
  Python standard library and the builtin \<^verbatim>\<open>int\<close>. They are not code of this
  module and differ in details between Python versions, so the parser takes them as a
  parameter \<open>L\<close>; a standard instance \<open>stdlib\<close> is defined below.

  The result of \<^verbatim>\<open>urlparse\<close> is an object with the attributes the parser reads.
  \<^verbatim>\<open>url.port\<close> is a property that may raise \<^verbatim>\<open>ValueError\<close>.
\<close>

record url =
  url_scheme :: string
  url_path :: string
  url_query :: string
  url_hostname :: "string option"
  url_port :: "py_exn + int option"
  url_password :: "string option"

record pylib =
  urlparse :: "string \<Rightarrow> py_exn + url"
  parse_qs :: "string \<Rightarrow> string \<Rightarrow> string list option"
    \<comment> \<open>the dictionary from a name to the list of its values\<close>
  int_of_str :: "string \<Rightarrow> int option"
    \<comment> \<open>\<^verbatim>\<open>int(s)\<close> on a string; \<open>None\<close> is \<^verbatim>\<open>ValueError\<close>\<close>

type_synonym kwargs = "string \<rightharpoonup> pv"

datatype warning = DeprecationWarning string

text \<open>\<^verbatim>\<open>int(v)\<close> on a value of the dictionary.\<close>

fun py_int :: "pylib \<Rightarrow> pv \<Rightarrow> py_exn + int" where
  "py_int L (PInt n) = Inr n"
| "py_int L (PStr s) = (case int_of_str L s of None \<Rightarrow> Inl ValueError | Some n \<Rightarrow> Inr n)"
| "py_int L PNone = Inl TypeError"
| "py_int L (PClass c) = Inl TypeError"

text \<open>An optional string as a value: \<^verbatim>\<open>None\<close> or the string.\<close>

fun opt_pv :: "string option \<Rightarrow> pv" where
  "opt_pv None = PNone"
| "opt_pv (Some s) = PStr s"

text \<open>\<^verbatim>\<open>int(p or d)\<close> for \<open>p\<close> an integer or \<^verbatim>\<open>None\<close>: zero is falsy.\<close>

fun int_or :: "int option \<Rightarrow> int \<Rightarrow> int" where
  "int_or None d = d"
| "int_or (Some n) d = (if n \<noteq> 0 then n else d)"

subsection \<open>The URL form\<close>

text \<open>
  \<^verbatim>\<open>
  url = urlparse(url)
  qs = ''
  if '?' in url.path and not url.query:
      qs = url.path.split('?', 1)[1]
      url = urlparse(url_string[:-(len(qs) + 1)])
  else:
      qs = url.query
  \<close>
\<close>

definition split_url_query :: "pylib \<Rightarrow> string \<Rightarrow> py_exn + (url \<times> string)" where
  "split_url_query L url_string =
     (case urlparse L url_string of
        Inl e \<Rightarrow> Inl e
      | Inr u \<Rightarrow>
          if CHR ''?'' \<in> set (url_path u) \<and> url_query u = [] then
            (let qs = after_first CHR ''?'' (url_path u) in
             case urlparse L (take (length url_string - (length qs + 1)) url_string) of
               Inl e \<Rightarrow> Inl e
             | Inr u' \<Rightarrow> Inr (u', qs))
          else Inr (u, url_query u))"

text \<open>
  \<^verbatim>\<open>
  url_options = {}
  for name, value in parse_qs(qs).items():
      if value and len(value) > 0:
          url_options[name] = value[0]
  \<close>
\<close>

definition query_options :: "pylib \<Rightarrow> string \<Rightarrow> kwargs" where
  "query_options L qs =
     (\<lambda>name. case parse_qs L qs name of
                Some (v # vs) \<Rightarrow> Some (PStr v)
              | _ \<Rightarrow> None)"

text \<open>
  \<^verbatim>\<open>
  if 'db' not in url_options and url.path:
      try:
          url_options['db'] = int(url.path.replace('/', ''))
      except (AttributeError, ValueError):
          pass
  \<close>
\<close>

definition path_db :: "pylib \<Rightarrow> url \<Rightarrow> kwargs \<Rightarrow> kwargs" where
  "path_db L u url_options =
     (if url_options ''db'' = None \<and> url_path u \<noteq> [] then
        (case int_of_str L (remove_char CHR ''/'' (url_path u)) of
           Some n \<Rightarrow> url_options(''db'' \<mapsto> PInt n)
         | None \<Rightarrow> url_options)
      else url_options)"

text \<open>
  The scheme dispatch. There are two branches: \<^verbatim>\<open>unix\<close>, and everything else.
  \<^verbatim>\<open>
  if url.scheme == 'unix':
      url_options.update({'password': url.password, 'unix_socket_path': url.path})
  else:
      url_options.update({'host': url.hostname, 'port': int(url.port or 6379),
                          'password': url.password})
      ... the path as the db ...
      if url.scheme == 'rediss':
          url_options['connection_class'] = SSLConnection
  \<close>
\<close>

definition scheme_options :: "pylib \<Rightarrow> url \<Rightarrow> kwargs \<Rightarrow> py_exn + kwargs" where
  "scheme_options L u url_options =
     (if url_scheme u = ''unix'' then
        Inr (url_options(''password'' \<mapsto> opt_pv (url_password u),
                         ''unix_socket_path'' \<mapsto> PStr (url_path u)))
      else
        (case url_port u of
           Inl e \<Rightarrow> Inl e
         | Inr p \<Rightarrow>
             (let o1 = url_options(''host'' \<mapsto> opt_pv (url_hostname u),
                                   ''port'' \<mapsto> PInt (int_or p 6379),
                                   ''password'' \<mapsto> opt_pv (url_password u));
                  o2 = path_db L u o1
              in Inr (if url_scheme u = ''rediss''
                      then o2(''connection_class'' \<mapsto> PClass ''SSLConnection'')
                      else o2))))"

text \<open>
  \<^verbatim>\<open>url_options['db'] = int(url_options.get('db', db or 0))\<close>
\<close>

definition last_shot_db :: "pylib \<Rightarrow> pv \<Rightarrow> kwargs \<Rightarrow> py_exn + kwargs" where
  "last_shot_db L db url_options =
     (case py_int L (case url_options ''db'' of
                       Some v \<Rightarrow> v
                     | None \<Rightarrow> py_or db (PInt 0)) of
        Inl e \<Rightarrow> Inl e
      | Inr n \<Rightarrow> Inr (url_options(''db'' \<mapsto> PInt n)))"

text \<open>
  \<^verbatim>\<open>
  if old in kwargs:
      warnings.warn(DeprecationWarning(msg))
      kwargs[new] = kwargs.pop(old)
  \<close>
  The warning channel is the list of the warnings emitted so far.
\<close>

definition rename_deprecated ::
  "string \<Rightarrow> string \<Rightarrow> kwargs \<times> warning list \<Rightarrow> kwargs \<times> warning list" where
  "rename_deprecated old new st =
     (case fst st old of
        None \<Rightarrow> st
      | Some v \<Rightarrow>
          (((fst st)(old := None))(new \<mapsto> v),
           snd st @ [DeprecationWarning (''\"'' @ old @ ''\" is deprecated. Use \"'' @ new
                                          @ ''\" instead'')]))"

definition url_form ::
  "pylib \<Rightarrow> string \<Rightarrow> pv \<Rightarrow> kwargs \<Rightarrow> warning list \<Rightarrow> (py_exn + kwargs) \<times> warning list" where
  "url_form L server db kwargs ws =
     (case split_url_query L server of
        Inl e \<Rightarrow> (Inl e, ws)
      | Inr (u, qs) \<Rightarrow>
          (case scheme_options L u (query_options L qs) of
             Inl e \<Rightarrow> (Inl e, ws)
           | Inr o1 \<Rightarrow>
               (case last_shot_db L db o1 of
                  Inl e \<Rightarrow> (Inl e, ws)
                | Inr o2 \<Rightarrow>
                    (let st = rename_deprecated ''errors'' ''encoding_errors''
                                (rename_deprecated ''charset'' ''encoding'' (kwargs ++ o2, ws))
                     in (Inr (fst st), snd st)))))"

subsection \<open>The host:port form and the bare socket path\<close>

text \<open>
  \<^verbatim>\<open>
  unix_socket_path = None
  if ':' in server:
      host, port = server.rsplit(':', 1)
      try:
          port = int(port)
      except (ValueError, TypeError):
          raise ImproperlyConfigured("{0} from {1} must be an integer".format(...))
  else:
      host, port = None, None
      unix_socket_path = server
  kwargs.update(host=host, port=port, unix_socket_path=unix_socket_path, db=db)
  \<close>
\<close>

definition plain_form :: "pylib \<Rightarrow> string \<Rightarrow> pv \<Rightarrow> kwargs \<Rightarrow> py_exn + kwargs" where
  "plain_form L server db kwargs =
     (if CHR '':'' \<in> set server then
        (case int_of_str L (snd (rsplit1 CHR '':'' server)) of
           None \<Rightarrow>
             Inl (ImproperlyConfigured
                    (PortNotInteger (snd (rsplit1 CHR '':'' server)) server))
         | Some n \<Rightarrow>
             Inr (kwargs(''host'' \<mapsto> PStr (fst (rsplit1 CHR '':'' server)),
                         ''port'' \<mapsto> PInt n,
                         ''unix_socket_path'' \<mapsto> PNone,
                         ''db'' \<mapsto> db)))
      else
        Inr (kwargs(''host'' \<mapsto> PNone,
                    ''port'' \<mapsto> PNone,
                    ''unix_socket_path'' \<mapsto> PStr server,
                    ''db'' \<mapsto> db)))"

subsection \<open>The parser\<close>

text \<open>
  \<^verbatim>\<open>
  def parse_connection_kwargs(server, db=None, **kwargs):
      kwargs['unix_socket_path'] = ''
      if '://' in server:
          ... the URL form ...
      else:
          ... the host:port form ...
      return kwargs
  \<close>
  \<open>db\<close> is \<open>PNone\<close> when the caller gives none. The keyword arguments cannot hold
  the key \<^verbatim>\<open>db\<close>, which Python binds to the parameter. The function takes the
  warning channel and returns it with the result.
\<close>

definition parse_connection_kwargs ::
  "pylib \<Rightarrow> string \<Rightarrow> pv \<Rightarrow> kwargs \<Rightarrow> warning list \<Rightarrow> (py_exn + kwargs) \<times> warning list" where
  "parse_connection_kwargs L server db kwargs ws =
     (let kwargs1 = kwargs(''unix_socket_path'' \<mapsto> PStr '''') in
      if contains ''://'' server then url_form L server db kwargs1 ws
      else (plain_form L server db kwargs1, ws))"

subsection \<open>Reading a result\<close>

text \<open>
  Whether a call returned, the exception it raised, and the value of a key in the
  dictionary it returned (\<open>None\<close> when the key is absent or the call raised).
\<close>

fun succeeded :: "(py_exn + 'a) \<times> 'b \<Rightarrow> bool" where
  "succeeded (Inr x, ws) = True"
| "succeeded (Inl e, ws) = False"

fun raised :: "(py_exn + 'a) \<times> 'b \<Rightarrow> py_exn option" where
  "raised (Inr x, ws) = None"
| "raised (Inl e, ws) = Some e"

fun param :: "string \<Rightarrow> (py_exn + kwargs) \<times> 'b \<Rightarrow> pv option" where
  "param k (Inr kw, ws) = kw k"
| "param k (Inl e, ws) = None"

text \<open>
  A library that reports every parsed URL under the scheme \<^verbatim>\<open>redis\<close> and is
  otherwise the library \<open>L\<close>.
\<close>

definition as_redis :: "url \<Rightarrow> url" where
  "as_redis u = u\<lparr> url_scheme := ''redis'' \<rparr>"

definition relabel :: "pylib \<Rightarrow> pylib" where
  "relabel L = L\<lparr> urlparse := (\<lambda>s. map_sum id as_redis (urlparse L s)) \<rparr>"

subsection \<open>A standard instance of the library\<close>

text \<open>
  The instance follows CPython 3.11 (\<^verbatim>\<open>urllib/parse.py\<close> and \<^verbatim>\<open>int\<close>) on ASCII
  text. Not modelled: the validation of a bracketed IPv6 host, the NFKC check of a
  non-ASCII network location, the replacement of invalid UTF-8 after percent-decoding,
  and non-ASCII digits and white space in \<^verbatim>\<open>int\<close>. The general theorems below hold
  for every library and do not depend on this instance; it serves to run the parser on
  concrete addresses.
\<close>

definition is_digit :: "char \<Rightarrow> bool" where
  "is_digit c = (c \<in> set ''0123456789'')"

definition is_upper :: "char \<Rightarrow> bool" where
  "is_upper c = (c \<in> set ''ABCDEFGHIJKLMNOPQRSTUVWXYZ'')"

definition is_lower :: "char \<Rightarrow> bool" where
  "is_lower c = (c \<in> set ''abcdefghijklmnopqrstuvwxyz'')"

definition to_lower :: "char \<Rightarrow> char" where
  "to_lower c =
     (case map_of (zip ''ABCDEFGHIJKLMNOPQRSTUVWXYZ'' ''abcdefghijklmnopqrstuvwxyz'') c of
        Some l \<Rightarrow> l
      | None \<Rightarrow> c)"

definition digit_val :: "char \<Rightarrow> int" where
  "digit_val c =
     (case map_of (zip ''0123456789'' [0, 1, 2, 3, 4, 5, 6, 7, 8, 9]) c of
        Some d \<Rightarrow> d
      | None \<Rightarrow> 0)"

definition digits_val :: "string \<Rightarrow> int" where
  "digits_val ds = fold (\<lambda>c n. 10 * n + digit_val c) ds 0"

text \<open>
  \<^verbatim>\<open>int(s)\<close> in base ten: white space around the text is dropped, then comes an
  optional sign, then groups of digits separated by single underscores.
\<close>

definition is_space :: "char \<Rightarrow> bool" where
  "is_space c = (c \<in> set [CHR 0x09, CHR 0x0A, CHR 0x0B, CHR 0x0C, CHR 0x0D, CHR '' ''])"

definition strip :: "string \<Rightarrow> string" where
  "strip s = rev (dropWhile is_space (rev (dropWhile is_space s)))"

definition unsigned_int :: "string \<Rightarrow> int option" where
  "unsigned_int s =
     (let groups = split_on CHR ''_'' s in
      if list_all (\<lambda>g. g \<noteq> [] \<and> list_all is_digit g) groups
      then Some (digits_val (concat groups))
      else None)"

definition std_int :: "string \<Rightarrow> int option" where
  "std_int s =
     (case strip s of
        [] \<Rightarrow> None
      | c # cs \<Rightarrow>
          if c = CHR ''-'' then map_option uminus (unsigned_int cs)
          else if c = CHR ''+'' then unsigned_int cs
          else unsigned_int (c # cs))"

text \<open>
  \<^verbatim>\<open>urlsplit\<close>: leading control characters and spaces are dropped, tab, carriage
  return and line feed are removed, then the scheme, the network location, the fragment
  and the query are cut off in this order. The result is
  (scheme, netloc, path, query); the fragment is not read by the parser.
\<close>

definition scheme_chars :: string where
  "scheme_chars =
     ''abcdefghijklmnopqrstuvwxyzABCDEFGHIJKLMNOPQRSTUVWXYZ0123456789+-.''"

definition clean_url :: "string \<Rightarrow> string" where
  "clean_url s =
     filter (\<lambda>c. c \<notin> set [CHR 0x09, CHR 0x0D, CHR 0x0A])
       (dropWhile (\<lambda>c. of_char c \<le> (32::nat)) s)"

definition split_scheme :: "string \<Rightarrow> string \<times> string" where
  "split_scheme s =
     (let pre = before_first CHR '':'' s in
      if CHR '':'' \<in> set s \<and> pre \<noteq> [] \<and> (is_upper (hd pre) \<or> is_lower (hd pre))
         \<and> list_all (\<lambda>c. c \<in> set scheme_chars) pre
      then (map to_lower pre, after_first CHR '':'' s)
      else ([], s))"

definition is_delim :: "char \<Rightarrow> bool" where
  "is_delim c = (c \<in> set ''/?#'')"

definition split_netloc :: "string \<Rightarrow> py_exn + (string \<times> string)" where
  "split_netloc s =
     (if take 2 s = ''//'' then
        (let netloc = takeWhile (\<lambda>c. \<not> is_delim c) (drop 2 s);
             rest = dropWhile (\<lambda>c. \<not> is_delim c) (drop 2 s)
         in if (CHR ''['' \<in> set netloc) \<noteq> (CHR '']'' \<in> set netloc)
            then Inl ValueError
            else Inr (netloc, rest))
      else Inr ([], s))"

definition urlsplit :: "string \<Rightarrow> py_exn + (string \<times> string \<times> string \<times> string)" where
  "urlsplit s =
     (let (scheme, s1) = split_scheme (clean_url s) in
      case split_netloc s1 of
        Inl e \<Rightarrow> Inl e
      | Inr (netloc, s2) \<Rightarrow>
          (let s3 = before_first CHR ''#'' s2 in
           Inr (scheme, netloc, before_first CHR ''?'' s3, after_first CHR ''?'' s3)))"

text \<open>
  \<^verbatim>\<open>urlparse\<close> cuts the parameters (after \<^verbatim>\<open>;\<close> in the last path segment) off the
  path for the schemes of \<^verbatim>\<open>uses_params\<close>.
\<close>

definition uses_params :: "string list" where
  "uses_params = ['''', ''ftp'', ''hdl'', ''prospero'', ''http'', ''imap'', ''https'',
                  ''shttp'', ''rtsp'', ''rtsps'', ''rtspu'', ''sip'', ''sips'', ''mms'',
                  ''sftp'', ''tel'']"

definition splitparams :: "string \<Rightarrow> string" where
  "splitparams p =
     (if CHR ''/'' \<in> set p then
        (let (pre, seg) = rsplit1 CHR ''/'' p in
         if CHR '';'' \<in> set seg then pre @ ''/'' @ before_first CHR '';'' seg else p)
      else before_first CHR '';'' p)"

text \<open>The attributes \<^verbatim>\<open>password\<close>, \<^verbatim>\<open>hostname\<close> and \<^verbatim>\<open>port\<close> of the result.\<close>

definition hostinfo :: "string \<Rightarrow> string" where
  "hostinfo netloc =
     (if CHR ''@'' \<in> set netloc then snd (rsplit1 CHR ''@'' netloc) else netloc)"

definition netloc_password :: "string \<Rightarrow> string option" where
  "netloc_password netloc =
     (if CHR ''@'' \<in> set netloc then
        (let userinfo = fst (rsplit1 CHR ''@'' netloc) in
         if CHR '':'' \<in> set userinfo then Some (after_first CHR '':'' userinfo) else None)
      else None)"

definition host_and_port :: "string \<Rightarrow> string \<times> string" where
  "host_and_port netloc =
     (let h = hostinfo netloc in
      if CHR ''['' \<in> set h then
        (let bracketed = after_first CHR ''['' h in
         (before_first CHR '']'' bracketed,
          after_first CHR '':'' (after_first CHR '']'' bracketed)))
      else (before_first CHR '':'' h, after_first CHR '':'' h))"

definition netloc_hostname :: "string \<Rightarrow> string option" where
  "netloc_hostname netloc =
     (let h = fst (host_and_port netloc) in
      if h = [] then None
      else Some (map to_lower (before_first CHR ''%'' h) @ dropWhile (\<lambda>c. c \<noteq> CHR ''%'') h))"

definition netloc_port :: "string \<Rightarrow> py_exn + int option" where
  "netloc_port netloc =
     (let p = snd (host_and_port netloc) in
      if p = [] then Inr None
      else if list_all is_digit p \<and> digits_val p \<le> 65535 then Inr (Some (digits_val p))
      else Inl ValueError)"

definition std_urlparse :: "string \<Rightarrow> py_exn + url" where
  "std_urlparse s =
     (case urlsplit s of
        Inl e \<Rightarrow> Inl e
      | Inr (scheme, netloc, p, q) \<Rightarrow>
          Inr \<lparr> url_scheme = scheme,
                url_path = (if scheme \<in> set uses_params \<and> CHR '';'' \<in> set p
                            then splitparams p else p),
                url_query = q,
                url_hostname = netloc_hostname netloc,
                url_port = netloc_port netloc,
                url_password = netloc_password netloc \<rparr>)"

text \<open>
  \<^verbatim>\<open>parse_qs\<close>: the query is split on \<^verbatim>\<open>&\<close>; a field without a value is dropped;
  in names and values \<^verbatim>\<open>+\<close> becomes a space and \<^verbatim>\<open>%XX\<close> the character with that
  code.
\<close>

definition hex_val :: "char \<Rightarrow> nat option" where
  "hex_val c =
     map_of (zip ''0123456789abcdefABCDEF''
                 [0, 1, 2, 3, 4, 5, 6, 7, 8, 9, 10, 11, 12, 13, 14, 15, 10, 11, 12, 13, 14, 15]) c"

fun unquote :: "string \<Rightarrow> string" where
  "unquote (c # a # b # rest) =
     (if c = CHR ''%'' then
        (case (hex_val a, hex_val b) of
           (Some x, Some y) \<Rightarrow> char_of (16 * x + y) # unquote rest
         | _ \<Rightarrow> c # unquote (a # b # rest))
      else c # unquote (a # b # rest))"
| "unquote s = s"

definition unquote_plus :: "string \<Rightarrow> string" where
  "unquote_plus s = unquote (map (\<lambda>c. if c = CHR ''+'' then CHR '' '' else c) s)"

definition parse_qsl :: "string \<Rightarrow> (string \<times> string) list" where
  "parse_qsl qs =
     (if qs = [] then []
      else concat (map (\<lambda>name_value.
                          if name_value \<noteq> [] \<and> after_first CHR ''='' name_value \<noteq> []
                          then [(unquote_plus (before_first CHR ''='' name_value),
                                 unquote_plus (after_first CHR ''='' name_value))]
                          else [])
                       (split_on CHR ''&'' qs)))"

definition std_parse_qs :: "string \<Rightarrow> string \<Rightarrow> string list option" where
  "std_parse_qs qs name =
     (let vs = map snd (filter (\<lambda>nv. fst nv = name) (parse_qsl qs)) in
      if vs = [] then None else Some vs)"

definition stdlib :: pylib where
  "stdlib = \<lparr> urlparse = std_urlparse, parse_qs = std_parse_qs, int_of_str = std_int \<rparr>"

section \<open>The self-healing client proxy\<close>

subsection \<open>Clients, the pool registry and the world\<close>

text \<open>
  A client object is known by its identity. The world holds what the proxy code reads
  and writes: the keys of \<^verbatim>\<open>pool._connection_pools\<close>, the next fresh identity,
  \<^verbatim>\<open>ClientProxy.client\<close> and \<^verbatim>\<open>ClientProxy._method_cache\<close>. It also counts the
  invocations of underlying callables and keeps the trace of what happened, in order.
\<close>

type_synonym client = nat
type_synonym conn_id = nat

datatype 'a event =
    Invoke client string 'a  \<comment> \<open>the named callable was called on this client\<close>
  | Evict conn_id            \<comment> \<open>\<^verbatim>\<open>del pool._connection_pools[...]\<close> was run\<close>
  | Create client            \<comment> \<open>\<^verbatim>\<open>create_client()\<close> built this client\<close>

text \<open>
  A \<^verbatim>\<open>MethodProxy\<close> has the fields \<^verbatim>\<open>client_proxy\<close>, \<^verbatim>\<open>client\<close> and
  \<^verbatim>\<open>method_attr\<close>. There is one proxy in the world, so \<^verbatim>\<open>client_proxy\<close> is the
  world itself.
\<close>

record method_proxy =
  mp_client :: client
  mp_method_attr :: string

record 'a world =
  connection_pools :: "conn_id set"
  next_client :: nat
  proxy_client :: client
  method_cache :: "string \<rightharpoonup> method_proxy"
  calls :: nat
  trace :: "'a event list"

text \<open>
  What a callable of the underlying client does: it returns a value (\<open>None\<close> is
  Python's \<^verbatim>\<open>None\<close>) or raises. An attribute of the client is a callable or a plain
  value.
\<close>

datatype 'v outcome = Returns "'v option" | Raises py_exn

datatype 'v attr = Callable | Plain "'v option"

text \<open>
  The environment of the proxy: the outcome of the \<open>n\<close>-th invocation (counted over
  the whole run) of a callable on a client with given arguments, the attributes of the
  clients, and \<^verbatim>\<open>get_connection_identifier_from_client\<close> of
  \<^verbatim>\<open>redis_cache.connection\<close>, a parameter here.
\<close>

record ('a, 'v) env =
  behaviour :: "nat \<Rightarrow> client \<Rightarrow> string \<Rightarrow> 'a \<Rightarrow> 'v outcome"
  attribute :: "client \<Rightarrow> string \<Rightarrow> 'v attr option"
  ident_of :: "client \<Rightarrow> conn_id"

subsection \<open>ClientProxy\<close>

text \<open>
  Modelled from the spec: \<^verbatim>\<open>pool.get_connection_pool\<close> of
  \<^verbatim>\<open>redis_cache.connection\<close> is missing; the spec says that it obtains a pool from
  the registry keyed by the connection identifier, so the model adds the identifier of
  the new client to the keys of the registry.
  \<^verbatim>\<open>
  def create_client(self):
      client = self.client_class(**self.connection_kwargs)
      complete_kwargs = dict(chain(...))
      connection_pool = pool.get_connection_pool(client, **complete_kwargs)
      client.connection_pool = connection_pool
      return client
  \<close>
\<close>

definition create_client :: "('a, 'v) env \<Rightarrow> 'a world \<Rightarrow> client \<times> 'a world" where
  "create_client E w =
     (next_client w,
      w\<lparr> connection_pools := insert (ident_of E (next_client w)) (connection_pools w),
         next_client := Suc (next_client w),
         trace := trace w @ [Create (next_client w)] \<rparr>)"

text \<open>
  \<^verbatim>\<open>ClientProxy.__init__\<close>: the first client is built and the cache is empty.
\<close>

definition new_proxy :: "('a, 'v) env \<Rightarrow> 'a world" where
  "new_proxy E =
     (let cw = create_client E \<lparr> connection_pools = {}, next_client = 0, proxy_client = 0,
                                  method_cache = Map.empty, calls = 0, trace = [] \<rparr>
      in (snd cw)\<lparr> proxy_client := fst cw, method_cache := Map.empty \<rparr>)"

text \<open>
  \<^verbatim>\<open>
  def __getattr__(self, attr):
      if callable(getattr(self.client, attr)):
          if attr not in self.__dict__['_method_cache']:
              self._method_cache[attr] = MethodProxy(self, self.client, attr)
          return self._method_cache[attr]
      else:
          return getattr(self.client, attr)
  \<close>
\<close>

datatype 'v got = Guard method_proxy | Value "'v option"

definition proxy_getattr ::
  "('a, 'v) env \<Rightarrow> string \<Rightarrow> 'a world \<Rightarrow> (py_exn + 'v got) \<times> 'a world" where
  "proxy_getattr E attr w =
     (case attribute E (proxy_client w) attr of
        None \<Rightarrow> (Inl AttributeError, w)
      | Some (Plain v) \<Rightarrow> (Inr (Value v), w)
      | Some Callable \<Rightarrow>
          (case method_cache w attr of
             Some mp \<Rightarrow> (Inr (Guard mp), w)
           | None \<Rightarrow>
               (let mp = \<lparr> mp_client = proxy_client w, mp_method_attr = attr \<rparr>
                in (Inr (Guard mp), w\<lparr> method_cache := (method_cache w)(attr \<mapsto> mp) \<rparr>))))"

subsection \<open>MethodProxy\<close>

definition max_call_count :: nat where
  "max_call_count = 3"

fun is_connection_error :: "py_exn \<Rightarrow> bool" where
  "is_connection_error (ConnectionError m) = True"
| "is_connection_error e = False"

text \<open>
  The call \<^verbatim>\<open>getattr(self.client, self.method_attr)(*args, **kwargs)\<close> is recorded
  in the trace and counted.
\<close>

definition invoked :: "method_proxy \<Rightarrow> 'a \<Rightarrow> 'a world \<Rightarrow> 'a world" where
  "invoked self args w =
     w\<lparr> calls := Suc (calls w),
        trace := trace w @ [Invoke (mp_client self) (mp_method_attr self) args] \<rparr>"

text \<open>
  \<^verbatim>\<open>
  connection_identifier = get_connection_identifier_from_client(self.client)
  try:
      del pool._connection_pools[connection_identifier]
  except KeyError:
      pass
  \<close>
\<close>

definition evict :: "conn_id \<Rightarrow> 'a world \<Rightarrow> 'a world" where
  "evict cid w =
     w\<lparr> connection_pools := connection_pools w - {cid}, trace := trace w @ [Evict cid] \<rparr>"

text \<open>
  The eviction, then
  \<^verbatim>\<open>self.client = self.client_proxy.client = self.client_proxy.create_client()\<close>.
\<close>

definition recover ::
  "('a, 'v) env \<Rightarrow> method_proxy \<times> 'a world \<Rightarrow> method_proxy \<times> 'a world" where
  "recover E st =
     (let cw = create_client E (evict (ident_of E (mp_client (fst st))) (snd st))
      in ((fst st)\<lparr> mp_client := fst cw \<rparr>, (snd cw)\<lparr> proxy_client := fst cw \<rparr>))"

text \<open>
  The statement \<^verbatim>\<open>self._call(call_count + 1, *args, **kwargs)\<close> has no
  \<^verbatim>\<open>return\<close>: an exception of the inner call propagates, its value is dropped and
  the function ends, returning \<^verbatim>\<open>None\<close>.
\<close>

fun drop_value :: "py_exn + 'v option \<Rightarrow> py_exn + 'v option" where
  "drop_value (Inl e) = Inl e"
| "drop_value (Inr v) = Inr None"

text \<open>
  \<^verbatim>\<open>
  def _call(self, call_count, *args, **kwargs):
      try:
          return getattr(self.client, self.method_attr)(*args, **kwargs)
      except ConnectionError as exc:
          if call_count == self.max_call_count:
              raise exc
          ... evict, recreate ...
          self._call(call_count + 1, *args, **kwargs)
  \<close>
  The state is the \<^verbatim>\<open>MethodProxy\<close> and the world. The recursion ends only when the
  count reaches \<^verbatim>\<open>max_call_count\<close>, so the function is partial: \<open>None\<close> is a
  call that does not return.
\<close>

partial_function (option) mp_call ::
  "('a, 'v) env \<Rightarrow> 'a \<Rightarrow> nat \<Rightarrow> method_proxy \<times> 'a world
     \<Rightarrow> ((py_exn + 'v option) \<times> method_proxy \<times> 'a world) option" where
  "mp_call E args call_count st =
     (case behaviour E (calls (snd st)) (mp_client (fst st)) (mp_method_attr (fst st)) args of
        Returns v \<Rightarrow> Some (Inr v, fst st, invoked (fst st) args (snd st))
      | Raises exc \<Rightarrow>
          if is_connection_error exc then
            if call_count = max_call_count
            then Some (Inl exc, fst st, invoked (fst st) args (snd st))
            else Option.bind
                   (mp_call E args (Suc call_count)
                      (recover E (fst st, invoked (fst st) args (snd st))))
                   (\<lambda>res. Some (drop_value (fst res), snd res))
          else Some (Inl exc, fst st, invoked (fst st) args (snd st)))"

declare mp_call.simps [code]

text \<open>\<^verbatim>\<open>def __call__(self, *args, **kwargs): return self._call(1, *args, **kwargs)\<close>\<close>

definition mp_invoke ::
  "('a, 'v) env \<Rightarrow> 'a \<Rightarrow> method_proxy \<times> 'a world
     \<Rightarrow> ((py_exn + 'v option) \<times> method_proxy \<times> 'a world) option" where
  "mp_invoke E args st = mp_call E args 1 st"

text \<open>
  The expression \<^verbatim>\<open>proxy.attr(*args)\<close>: the attribute is fetched from the proxy and
  called. The guard is the object held in the cache, so what the call did to its fields
  is seen by the next fetch: the model writes the guard back.
\<close>

definition guarded_call ::
  "('a, 'v) env \<Rightarrow> string \<Rightarrow> 'a \<Rightarrow> 'a world \<Rightarrow> ((py_exn + 'v option) \<times> 'a world) option" where
  "guarded_call E attr args w =
     (case proxy_getattr E attr w of
        (Inl e, w1) \<Rightarrow> Some (Inl e, w1)
      | (Inr (Value v), w1) \<Rightarrow> Some (Inl TypeError, w1)
      | (Inr (Guard mp), w1) \<Rightarrow>
          Option.bind (mp_invoke E args (mp, w1))
            (\<lambda>res. Some (fst res,
                          (snd (snd res))\<lparr> method_cache :=
                             (method_cache (snd (snd res)))(attr \<mapsto> fst (snd res)) \<rparr>)))"

subsection \<open>A scripted environment\<close>

text \<open>
  An environment for running the proxy on concrete inputs: the \<open>n\<close>-th invocation
  has the \<open>n\<close>-th outcome of the script (and returns \<^verbatim>\<open>None\<close> after its end),
  every attribute is a callable, and the connection identifier of a client is its
  identity.
\<close>

definition scripted_env :: "'v outcome list \<Rightarrow> ('a, 'v) env" where
  "scripted_env script =
     \<lparr> behaviour = (\<lambda>n c m a. if n < length script then script ! n else Returns None),
       attribute = (\<lambda>c m. Some Callable),
       ident_of = (\<lambda>c. c) \<rparr>"

text \<open>
  One guarded call on a new proxy, by a guard built for the first client: the result
  and the trace.
\<close>

definition first_guard :: method_proxy where
  "first_guard = \<lparr> mp_client = 0, mp_method_attr = ''get'' \<rparr>"

definition run_script ::
  "string outcome list \<Rightarrow> ((py_exn + string option) \<times> unit event list) option" where
  "run_script script =
     map_option (\<lambda>res. (fst res, trace (snd (snd res))))
       (mp_invoke (scripted_env script) () (first_guard, new_proxy (scripted_env script)))"

text \<open>
  The same call, read for the keys of the pool registry and for the clients held
  afterwards by the guard and by the proxy.
\<close>

definition run_script_pools :: "string outcome list \<Rightarrow> conn_id set option" where
  "run_script_pools script =
     map_option (\<lambda>res. connection_pools (snd (snd res)))
       (mp_invoke (scripted_env script) () (first_guard, new_proxy (scripted_env script)))"

definition run_script_clients :: "string outcome list \<Rightarrow> (client \<times> client) option" where
  "run_script_clients script =
     map_option (\<lambda>res. (mp_client (fst (snd res)), proxy_client (snd (snd res))))
       (mp_invoke (scripted_env script) () (first_guard, new_proxy (scripted_env script)))"

text \<open>
  A run with two guards of one proxy: the guard of \<^verbatim>\<open>get\<close> is fetched (and so
  constructed), then \<^verbatim>\<open>proxy.set()\<close> meets one connectivity failure and recovers,
  then \<^verbatim>\<open>proxy.get()\<close> is called.
\<close>

definition two_guards_env :: "(unit, string) env" where
  "two_guards_env =
     scripted_env [Raises (ConnectionError ''lost''), Returns (Some ''OK''),
                   Returns (Some ''value'')]"

definition two_guards_mid :: "unit world option" where
  "two_guards_mid =
     map_option snd
       (guarded_call two_guards_env ''set'' ()
          (snd (proxy_getattr two_guards_env ''get'' (new_proxy two_guards_env))))"

definition two_guards_run :: "((py_exn + string option) \<times> unit world) option" where
  "two_guards_run = Option.bind two_guards_mid (guarded_call two_guards_env ''get'' ())"

text \<open>The client held by the cached guard of an attribute.\<close>

definition cached_client :: "string \<Rightarrow> 'a world \<Rightarrow> client option" where
  "cached_client attr w = map_option mp_client (method_cache w attr)"

section \<open>Properties of the server list\<close>

lemma split_on_nonempty: "split_on c s \<noteq> []"
  by (induction s) (auto split: list.splits)

lemma length_split_on: "length (split_on c s) = Suc (count_list s c)"
proof (induction s)
  case Nil
  show ?case by simp
next
  case (Cons x xs)
  obtain w ws where "split_on c xs = w # ws"
    using split_on_nonempty [of c xs] by (cases "split_on c xs") auto
  with Cons show ?case by auto
qed

lemma split_on_no_sep: "a \<in> set (split_on c s) \<Longrightarrow> c \<notin> set a"
proof (induction s arbitrary: a)
  case Nil
  then show ?case by simp
next
  case (Cons x xs)
  obtain w ws where ws: "split_on c xs = w # ws"
    using split_on_nonempty [of c xs] by (cases "split_on c xs") auto
  show ?case
  proof (cases "x = c")
    case True
    with Cons show ?thesis by auto
  next
    case False
    with Cons.prems ws have "a = x # w \<or> a \<in> set ws" by simp
    then show ?thesis
    proof
      assume "a = x # w"
      moreover have "c \<notin> set w" using Cons.IH [of w] ws by simp
      ultimately show ?thesis using False by auto
    next
      assume "a \<in> set ws"
      then show ?thesis using Cons.IH [of a] ws by simp
    qed
  qed
qed

lemma count_list_pos: "c \<in> set s \<Longrightarrow> 0 < count_list s c"
  by (induction s) auto

text \<open>
  C10. A string location is split on every comma before any address is parsed: the
  result has one more element than the string has commas, no element contains a comma,
  and a string that contains a comma (wherever it stands, also inside a query string)
  gives at least two server addresses.
\<close>

theorem get_servers_splits_every_comma:
  "get_servers (LStr s) = Inr (split_on CHR '','' s)
   \<and> length (split_on CHR '','' s) = Suc (count_list s CHR '','')
   \<and> (\<forall>a \<in> set (split_on CHR '','' s). CHR '','' \<notin> set a)
   \<and> (CHR '','' \<in> set s \<longrightarrow> 2 \<le> length (split_on CHR '','' s))"
proof -
  have "CHR '','' \<in> set s \<Longrightarrow> 2 \<le> length (split_on CHR '','' s)"
    using count_list_pos [of "CHR '',''" s] by (simp add: length_split_on)
  then show ?thesis
    by (simp add: length_split_on split_on_no_sep)
qed

theorem get_servers_splits_every_comma_witness:
  "CHR '','' \<in> set ''redis://h?a=1,2''
   \<and> get_servers (LStr ''redis://h?a=1,2'') = Inr [''redis://h?a=1'', ''2'']
   \<and> CHR '','' \<notin> set ''redis://h?a=1''
   \<and> CHR '','' \<notin> set ''2''
   \<and> 2 \<le> length (split_on CHR '','' ''redis://h?a=1,2'')"
  using get_servers_splits_every_comma [of "''redis://h?a=1,2''"] by simp

section \<open>Properties of the retry protocol\<close>

subsection \<open>One step of \<open>mp_call\<close>\<close>

lemma mp_call_returns:
  "behaviour E (calls w) (mp_client self) (mp_method_attr self) args = Returns v
   \<Longrightarrow> mp_call E args c (self, w) = Some (Inr v, self, invoked self args w)"
  by (subst mp_call.simps) simp

lemma mp_call_other:
  "behaviour E (calls w) (mp_client self) (mp_method_attr self) args = Raises exc
   \<Longrightarrow> \<not> is_connection_error exc
   \<Longrightarrow> mp_call E args c (self, w) = Some (Inl exc, self, invoked self args w)"
  by (subst mp_call.simps) simp

lemma mp_call_exhausted:
  "behaviour E (calls w) (mp_client self) (mp_method_attr self) args = Raises exc
   \<Longrightarrow> c = max_call_count
   \<Longrightarrow> mp_call E args c (self, w) = Some (Inl exc, self, invoked self args w)"
  by (subst mp_call.simps) simp

lemma mp_call_retry:
  "behaviour E (calls w) (mp_client self) (mp_method_attr self) args = Raises exc
   \<Longrightarrow> is_connection_error exc \<Longrightarrow> c \<noteq> max_call_count
   \<Longrightarrow> mp_call E args c (self, w) =
       Option.bind (mp_call E args (Suc c) (recover E (self, invoked self args w)))
         (\<lambda>res. Some (drop_value (fst res), snd res))"
  by (subst mp_call.simps) simp

lemma recover_self:
  "mp_client (fst (recover E (self, w))) = next_client w"
  "mp_method_attr (fst (recover E (self, w))) = mp_method_attr self"
  "fst (recover E (self, w)) = self\<lparr> mp_client := next_client w \<rparr>"
  by (simp_all add: recover_def create_client_def evict_def Let_def)

lemma recover_world:
  "calls (snd (recover E (self, w))) = calls w"
  "next_client (snd (recover E (self, w))) = Suc (next_client w)"
  "proxy_client (snd (recover E (self, w))) = next_client w"
  "trace (snd (recover E (self, w))) =
     trace w @ [Evict (ident_of E (mp_client self)), Create (next_client w)]"
  "connection_pools (snd (recover E (self, w))) =
     insert (ident_of E (next_client w)) (connection_pools w - {ident_of E (mp_client self)})"
  by (simp_all add: recover_def create_client_def evict_def Let_def)

lemma invoked_world:
  "calls (invoked self args w) = Suc (calls w)"
  "next_client (invoked self args w) = next_client w"
  "proxy_client (invoked self args w) = proxy_client w"
  "connection_pools (invoked self args w) = connection_pools w"
  "method_cache (invoked self args w) = method_cache w"
  "trace (invoked self args w) = trace w @ [Invoke (mp_client self) (mp_method_attr self) args]"
  by (simp_all add: invoked_def)

text \<open>
  After one connectivity failure on a count below the maximum, the call continues as
  the next attempt on the recovered state; \<open>retry_state\<close> names that state.
\<close>

lemma retry_state_facts:
  "fst (recover E (self, invoked self args w)) = self\<lparr> mp_client := next_client w \<rparr>"
  "calls (snd (recover E (self, invoked self args w))) = Suc (calls w)"
  "next_client (snd (recover E (self, invoked self args w))) = Suc (next_client w)"
  "proxy_client (snd (recover E (self, invoked self args w))) = next_client w"
  "trace (snd (recover E (self, invoked self args w))) =
     trace w @ [Invoke (mp_client self) (mp_method_attr self) args,
                Evict (ident_of E (mp_client self)), Create (next_client w)]"
  "connection_pools (snd (recover E (self, invoked self args w))) =
     insert (ident_of E (next_client w)) (connection_pools w - {ident_of E (mp_client self)})"
  by (simp_all add: recover_self recover_world invoked_world)

subsection \<open>Three attempts\<close>

text \<open>
  The shape of a guarded call whose first two attempts fail with connectivity errors:
  whatever the third attempt does, there are exactly two evictions and two creations,
  in this order, and the third attempt runs on the second new client.
\<close>

lemma two_failures_then:
  fixes self :: method_proxy and w :: "'a world"
  assumes b1: "behaviour E (calls w) (mp_client self) (mp_method_attr self) args
                 = Raises (ConnectionError e1)"
      and b2: "behaviour E (Suc (calls w)) (next_client w) (mp_method_attr self) args
                 = Raises (ConnectionError e2)"
  shows "\<exists>w2. calls w2 = Suc (Suc (calls w))
           \<and> proxy_client w2 = Suc (next_client w)
           \<and> trace w2 = trace w @
               [Invoke (mp_client self) (mp_method_attr self) args,
                Evict (ident_of E (mp_client self)), Create (next_client w),
                Invoke (next_client w) (mp_method_attr self) args,
                Evict (ident_of E (next_client w)), Create (Suc (next_client w))]
           \<and> mp_invoke E args (self, w) =
               Option.bind (mp_call E args 3 (self\<lparr> mp_client := Suc (next_client w) \<rparr>, w2))
                 (\<lambda>res. Some (drop_value (fst res), snd res))
           \<and> connection_pools w2 =
               insert (ident_of E (Suc (next_client w)))
                 (insert (ident_of E (next_client w))
                    (connection_pools w - {ident_of E (mp_client self)})
                  - {ident_of E (next_client w)})"
proof -
  let ?s1 = "recover E (self, invoked self args w)"
  let ?s2 = "recover E (fst ?s1, invoked (fst ?s1) args (snd ?s1))"
  have k2: "connection_pools (snd ?s2) =
               insert (ident_of E (Suc (next_client w)))
                 (insert (ident_of E (next_client w))
                    (connection_pools w - {ident_of E (mp_client self)})
                  - {ident_of E (next_client w)})"
    by (simp add: retry_state_facts)
  have f1: "fst ?s1 = self\<lparr> mp_client := next_client w \<rparr>"
    and c1: "calls (snd ?s1) = Suc (calls w)"
    and n1: "next_client (snd ?s1) = Suc (next_client w)"
    and t1: "trace (snd ?s1) =
           trace w @ [Invoke (mp_client self) (mp_method_attr self) args,
                      Evict (ident_of E (mp_client self)), Create (next_client w)]"
    by (simp_all add: retry_state_facts)
  have f2: "fst ?s2 = self\<lparr> mp_client := Suc (next_client w) \<rparr>"
    and c2: "calls (snd ?s2) = Suc (Suc (calls w))"
    and p2: "proxy_client (snd ?s2) = Suc (next_client w)"
    and t2: "trace (snd ?s2) = trace w @
               [Invoke (mp_client self) (mp_method_attr self) args,
                Evict (ident_of E (mp_client self)), Create (next_client w),
                Invoke (next_client w) (mp_method_attr self) args,
                Evict (ident_of E (next_client w)), Create (Suc (next_client w))]"
    by (simp_all add: retry_state_facts)
  have b2': "behaviour E (calls (snd ?s1)) (mp_client (fst ?s1)) (mp_method_attr (fst ?s1)) args
               = Raises (ConnectionError e2)"
    using b2 by (simp add: f1 c1)
  have step1: "mp_call E args 1 (self, w) =
      Option.bind (mp_call E args 2 ?s1) (\<lambda>res. Some (drop_value (fst res), snd res))"
    using mp_call_retry [OF b1, of 1] by (simp add: max_call_count_def numeral_2_eq_2)
  have step2: "mp_call E args 2 (fst ?s1, snd ?s1) =
      Option.bind (mp_call E args 3 ?s2) (\<lambda>res. Some (drop_value (fst res), snd res))"
    using mp_call_retry [OF b2', of 2] by (simp add: max_call_count_def numeral_3_eq_3 numeral_2_eq_2)
  have "mp_invoke E args (self, w) =
      Option.bind (mp_call E args 3 (fst ?s2, snd ?s2))
        (\<lambda>res. Some (drop_value (fst res), snd res))"
  proof (cases "mp_call E args 3 ?s2")
    case None
    then show ?thesis unfolding mp_invoke_def step1 using step2 by simp
  next
    case (Some res)
    have "drop_value (drop_value (fst res)) = drop_value (fst res)"
      by (cases "fst res") simp_all
    with Some show ?thesis unfolding mp_invoke_def step1 using step2 by simp
  qed
  then have "mp_invoke E args (self, w) =
      Option.bind (mp_call E args 3 (self\<lparr> mp_client := Suc (next_client w) \<rparr>, snd ?s2))
        (\<lambda>res. Some (drop_value (fst res), snd res))"
    by (simp only: f2)
  with c2 p2 t2 k2 show ?thesis
    by (intro exI [of _ "snd ?s2"] conjI)
qed

lemma one_failure_then:
  fixes self :: method_proxy and w :: "'a world"
  assumes b1: "behaviour E (calls w) (mp_client self) (mp_method_attr self) args
                 = Raises (ConnectionError e1)"
  shows "\<exists>w1. calls w1 = Suc (calls w)
           \<and> proxy_client w1 = next_client w
           \<and> next_client w1 = Suc (next_client w)
           \<and> trace w1 = trace w @
               [Invoke (mp_client self) (mp_method_attr self) args,
                Evict (ident_of E (mp_client self)), Create (next_client w)]
           \<and> mp_invoke E args (self, w) =
               Option.bind (mp_call E args 2 (self\<lparr> mp_client := next_client w \<rparr>, w1))
                 (\<lambda>res. Some (drop_value (fst res), snd res))"
proof -
  let ?s1 = "recover E (self, invoked self args w)"
  have "mp_call E args 1 (self, w) =
      Option.bind (mp_call E args 2 (fst ?s1, snd ?s1))
        (\<lambda>res. Some (drop_value (fst res), snd res))"
    using mp_call_retry [OF b1, of 1] by (simp add: max_call_count_def numeral_2_eq_2)
  then have "mp_invoke E args (self, w) =
      Option.bind (mp_call E args 2 (self\<lparr> mp_client := next_client w \<rparr>, snd ?s1))
        (\<lambda>res. Some (drop_value (fst res), snd res))"
    by (simp only: mp_invoke_def retry_state_facts)
  moreover have "calls (snd ?s1) = Suc (calls w)" "proxy_client (snd ?s1) = next_client w"
    "next_client (snd ?s1) = Suc (next_client w)"
    "trace (snd ?s1) = trace w @
               [Invoke (mp_client self) (mp_method_attr self) args,
                Evict (ident_of E (mp_client self)), Create (next_client w)]"
    by (simp_all add: retry_state_facts)
  ultimately show ?thesis
    by (intro exI [of _ "snd ?s1"] conjI)
qed

lemma mp_call_total:
  "c \<le> max_call_count \<Longrightarrow>
   \<exists>r self' w' evs. mp_call E args c (self, w) = Some (r, self', w')
      \<and> trace w' = trace w @ Invoke (mp_client self) (mp_method_attr self) args # evs
      \<and> ((self' = self \<and> w' = invoked self args w)
           \<or> (mp_client self' = proxy_client w' \<and> Suc (mp_client self') = next_client w'
               \<and> next_client w \<le> mp_client self'
               \<and> Create (mp_client self') \<in> set evs))"
proof (induction "max_call_count - c" arbitrary: c self w)
  case 0
  then have c: "c = max_call_count" by simp
  show ?case
  proof (cases "behaviour E (calls w) (mp_client self) (mp_method_attr self) args")
    case (Returns v)
    then show ?thesis by (simp add: mp_call_returns invoked_world)
  next
    case (Raises exc)
    then show ?thesis using c by (simp add: mp_call_exhausted invoked_world)
  qed
next
  case (Suc n)
  then have c: "c \<noteq> max_call_count" and c': "Suc c \<le> max_call_count"
    and n: "n = max_call_count - Suc c"
    by auto
  show ?case
  proof (cases "behaviour E (calls w) (mp_client self) (mp_method_attr self) args")
    case (Returns v)
    then show ?thesis by (simp add: mp_call_returns invoked_world)
  next
    case (Raises exc)
    show ?thesis
    proof (cases "is_connection_error exc")
      case False
      with Raises show ?thesis by (simp add: mp_call_other invoked_world)
    next
      case True
      let ?st = "recover E (self, invoked self args w)"
      obtain r self' w' evs where
        inner: "mp_call E args (Suc c) (fst ?st, snd ?st) = Some (r, self', w')"
        and tr: "trace w' = trace (snd ?st)
                   @ Invoke (mp_client (fst ?st)) (mp_method_attr (fst ?st)) args # evs"
        and cl: "(self' = fst ?st \<and> w' = invoked (fst ?st) args (snd ?st))
                   \<or> (mp_client self' = proxy_client w'
                       \<and> Suc (mp_client self') = next_client w'
                       \<and> next_client (snd ?st) \<le> mp_client self'
                       \<and> Create (mp_client self') \<in> set evs)"
        using Suc.hyps(1) [OF n c', of "fst ?st" "snd ?st"] by blast
      let ?evs = "[Evict (ident_of E (mp_client self)), Create (next_client w)]
                    @ Invoke (mp_client (fst ?st)) (mp_method_attr (fst ?st)) args # evs"
      have cl': "mp_client self' = proxy_client w' \<and> Suc (mp_client self') = next_client w'
                  \<and> next_client w \<le> mp_client self' \<and> Create (mp_client self') \<in> set ?evs"
        using cl by (auto simp: retry_state_facts invoked_world)
      have "mp_call E args c (self, w) = Some (drop_value r, self', w')"
        using mp_call_retry [OF Raises True c] inner by simp
      moreover have "trace w' = trace w @ Invoke (mp_client self) (mp_method_attr self) args # ?evs"
        using tr by (simp add: retry_state_facts)
      ultimately show ?thesis using cl' by blast
    qed
  qed
qed

text \<open>
  A guarded call whose first attempt meets a connectivity failure: the guard evicts,
  creates a client and makes the second attempt on that client.
\<close>

lemma first_failure_recovers:
  fixes self :: method_proxy and w :: "'a world"
  assumes b1: "behaviour E (calls w) (mp_client self) (mp_method_attr self) args
                 = Raises (ConnectionError e)"
  shows "\<exists>r self' w' evs.
           mp_invoke E args (self, w) = Some (r, self', w')
           \<and> trace w' = trace w @
               [Invoke (mp_client self) (mp_method_attr self) args,
                Evict (ident_of E (mp_client self)), Create (next_client w),
                Invoke (next_client w) (mp_method_attr self) args] @ evs
           \<and> mp_client self' = proxy_client w'
           \<and> Suc (mp_client self') = next_client w'
           \<and> next_client w \<le> mp_client self'
           \<and> Create (mp_client self') \<in> set (trace w')"
proof -
  let ?self1 = "self\<lparr> mp_client := next_client w \<rparr>"
  obtain w1 where c1: "calls w1 = Suc (calls w)"
    and p1: "proxy_client w1 = next_client w"
    and n1: "next_client w1 = Suc (next_client w)"
    and t1: "trace w1 = trace w @
               [Invoke (mp_client self) (mp_method_attr self) args,
                Evict (ident_of E (mp_client self)), Create (next_client w)]"
    and inv: "mp_invoke E args (self, w) =
               Option.bind (mp_call E args 2 (?self1, w1))
                 (\<lambda>res. Some (drop_value (fst res), snd res))"
    using one_failure_then [OF b1] by blast
  obtain r self' w' evs where
    inner: "mp_call E args 2 (?self1, w1) = Some (r, self', w')"
    and tr: "trace w' = trace w1 @ Invoke (mp_client ?self1) (mp_method_attr ?self1) args # evs"
    and cl: "(self' = ?self1 \<and> w' = invoked ?self1 args w1)
               \<or> (mp_client self' = proxy_client w' \<and> Suc (mp_client self') = next_client w'
                   \<and> next_client w1 \<le> mp_client self'
                   \<and> Create (mp_client self') \<in> set evs)"
    using mp_call_total [of 2 E args ?self1 w1] by (auto simp: max_call_count_def)
  have res: "mp_invoke E args (self, w) = Some (drop_value r, self', w')"
    using inv inner by simp
  have tr': "trace w' = trace w @
               [Invoke (mp_client self) (mp_method_attr self) args,
                Evict (ident_of E (mp_client self)), Create (next_client w),
                Invoke (next_client w) (mp_method_attr self) args] @ evs"
    using tr t1 by simp
  have "mp_client self' = proxy_client w' \<and> Suc (mp_client self') = next_client w'
          \<and> next_client w \<le> mp_client self' \<and> Create (mp_client self') \<in> set (trace w')"
    using cl p1 n1 tr' by (auto simp: invoked_world)
  with res tr' show ?thesis by blast
qed

subsection \<open>The claims about the retry protocol\<close>

text \<open>
  C5. When the callable raises a connectivity error on each of the three attempts, the
  guarded call ends with the error of the third attempt, as it was raised. Exactly two
  evict and recreate cycles are performed, one after each of the first two failures
  and none after the third: the trace shows them in order, and the pool registry
  afterwards is the registry before with the keys of the first and of the second client
  removed in turn and the keys of the two new clients added in turn.
\<close>

theorem three_failures_raise_third_error:
  fixes self :: method_proxy and w :: "'a world"
  assumes b1: "behaviour E (calls w) (mp_client self) (mp_method_attr self) args
                 = Raises (ConnectionError e1)"
      and b2: "behaviour E (Suc (calls w)) (next_client w) (mp_method_attr self) args
                 = Raises (ConnectionError e2)"
      and b3: "behaviour E (Suc (Suc (calls w))) (Suc (next_client w)) (mp_method_attr self) args
                 = Raises (ConnectionError e3)"
  shows "\<exists>w'. mp_invoke E args (self, w) =
                 Some (Inl (ConnectionError e3), self\<lparr> mp_client := Suc (next_client w) \<rparr>, w')
           \<and> trace w' = trace w @
               [Invoke (mp_client self) (mp_method_attr self) args,
                Evict (ident_of E (mp_client self)), Create (next_client w),
                Invoke (next_client w) (mp_method_attr self) args,
                Evict (ident_of E (next_client w)), Create (Suc (next_client w)),
                Invoke (Suc (next_client w)) (mp_method_attr self) args]
           \<and> proxy_client w' = Suc (next_client w)
           \<and> connection_pools w' =
               insert (ident_of E (Suc (next_client w)))
                 (insert (ident_of E (next_client w))
                    (connection_pools w - {ident_of E (mp_client self)})
                  - {ident_of E (next_client w)})"
proof -
  let ?self2 = "self\<lparr> mp_client := Suc (next_client w) \<rparr>"
  obtain w2 where c2: "calls w2 = Suc (Suc (calls w))"
    and p2: "proxy_client w2 = Suc (next_client w)"
    and t2: "trace w2 = trace w @
               [Invoke (mp_client self) (mp_method_attr self) args,
                Evict (ident_of E (mp_client self)), Create (next_client w),
                Invoke (next_client w) (mp_method_attr self) args,
                Evict (ident_of E (next_client w)), Create (Suc (next_client w))]"
    and inv: "mp_invoke E args (self, w) =
               Option.bind (mp_call E args 3 (?self2, w2))
                 (\<lambda>res. Some (drop_value (fst res), snd res))"
    and k2: "connection_pools w2 =
               insert (ident_of E (Suc (next_client w)))
                 (insert (ident_of E (next_client w))
                    (connection_pools w - {ident_of E (mp_client self)})
                  - {ident_of E (next_client w)})"
    using two_failures_then [OF b1 b2] by blast
  have "behaviour E (calls w2) (mp_client ?self2) (mp_method_attr ?self2) args
          = Raises (ConnectionError e3)"
    using b3 by (simp add: c2)
  then have "mp_call E args 3 (?self2, w2)
               = Some (Inl (ConnectionError e3), ?self2, invoked ?self2 args w2)"
    by (rule mp_call_exhausted) (simp add: max_call_count_def)
  then have a1: "mp_invoke E args (self, w)
               = Some (Inl (ConnectionError e3), ?self2, invoked ?self2 args w2)"
    using inv by simp
  have "trace (invoked ?self2 args w2) = trace w @
               [Invoke (mp_client self) (mp_method_attr self) args,
                Evict (ident_of E (mp_client self)), Create (next_client w),
                Invoke (next_client w) (mp_method_attr self) args,
                Evict (ident_of E (next_client w)), Create (Suc (next_client w)),
                Invoke (Suc (next_client w)) (mp_method_attr self) args]"
    by (simp add: invoked_world t2)
  moreover have "proxy_client (invoked ?self2 args w2) = Suc (next_client w)"
    by (simp add: invoked_world p2)
  moreover have "connection_pools (invoked ?self2 args w2) =
               insert (ident_of E (Suc (next_client w)))
                 (insert (ident_of E (next_client w))
                    (connection_pools w - {ident_of E (mp_client self)})
                  - {ident_of E (next_client w)})"
    by (simp only: invoked_world k2)
  ultimately show ?thesis
    using a1 by (intro exI [of _ "invoked ?self2 args w2"] conjI)
qed

text \<open>
  C1, as the code behaves. When the first two attempts fail with connectivity errors
  and the third returns \<open>v\<close>, there are exactly two evictions and two creations, but
  the guarded call returns \<^verbatim>\<open>None\<close>: the value of the retry is dropped, because
  \<^verbatim>\<open>_call\<close> calls itself without \<^verbatim>\<open>return\<close>. The claim asks for \<open>v\<close>.
\<close>

theorem retry_success_value_dropped:
  fixes self :: method_proxy and w :: "'a world"
  assumes b1: "behaviour E (calls w) (mp_client self) (mp_method_attr self) args
                 = Raises (ConnectionError e1)"
      and b2: "behaviour E (Suc (calls w)) (next_client w) (mp_method_attr self) args
                 = Raises (ConnectionError e2)"
      and b3: "behaviour E (Suc (Suc (calls w))) (Suc (next_client w)) (mp_method_attr self) args
                 = Returns v"
  shows "\<exists>w'. mp_invoke E args (self, w) =
                 Some (Inr None, self\<lparr> mp_client := Suc (next_client w) \<rparr>, w')
           \<and> trace w' = trace w @
               [Invoke (mp_client self) (mp_method_attr self) args,
                Evict (ident_of E (mp_client self)), Create (next_client w),
                Invoke (next_client w) (mp_method_attr self) args,
                Evict (ident_of E (next_client w)), Create (Suc (next_client w)),
                Invoke (Suc (next_client w)) (mp_method_attr self) args]
           \<and> proxy_client w' = Suc (next_client w)"
proof -
  let ?self2 = "self\<lparr> mp_client := Suc (next_client w) \<rparr>"
  obtain w2 where c2: "calls w2 = Suc (Suc (calls w))"
    and p2: "proxy_client w2 = Suc (next_client w)"
    and t2: "trace w2 = trace w @
               [Invoke (mp_client self) (mp_method_attr self) args,
                Evict (ident_of E (mp_client self)), Create (next_client w),
                Invoke (next_client w) (mp_method_attr self) args,
                Evict (ident_of E (next_client w)), Create (Suc (next_client w))]"
    and inv: "mp_invoke E args (self, w) =
               Option.bind (mp_call E args 3 (?self2, w2))
                 (\<lambda>res. Some (drop_value (fst res), snd res))"
    using two_failures_then [OF b1 b2] by blast
  have "behaviour E (calls w2) (mp_client ?self2) (mp_method_attr ?self2) args = Returns v"
    using b3 by (simp add: c2)
  then have "mp_call E args 3 (?self2, w2) = Some (Inr v, ?self2, invoked ?self2 args w2)"
    by (rule mp_call_returns)
  then have "mp_invoke E args (self, w) = Some (Inr None, ?self2, invoked ?self2 args w2)"
    using inv by simp
  moreover have "trace (invoked ?self2 args w2) = trace w2
                   @ [Invoke (Suc (next_client w)) (mp_method_attr self) args]"
    by (simp add: invoked_world)
  moreover have "proxy_client (invoked ?self2 args w2) = Suc (next_client w)"
    by (simp add: invoked_world p2)
  ultimately show ?thesis
    using t2 by (intro exI [of _ "invoked ?self2 args w2"]) simp
qed

lemma new_proxy_facts:
  "calls (new_proxy E) = 0"
  "next_client (new_proxy E) = Suc 0"
  "proxy_client (new_proxy E) = 0"
  "trace (new_proxy E) = [Create 0]"
  "method_cache (new_proxy E) = Map.empty"
  by (simp_all add: new_proxy_def create_client_def Let_def)

lemma scripted_env_sel:
  "behaviour (scripted_env s) n c m a = (if n < length s then s ! n else Returns None)"
  "attribute (scripted_env s) c m = Some Callable"
  "ident_of (scripted_env s) c = c"
  by (simp_all add: scripted_env_def)

theorem three_failures_raise_third_error_witness:
  "run_script [Raises (ConnectionError ''a''), Raises (ConnectionError ''b''),
               Raises (ConnectionError ''c'')]
     = Some (Inl (ConnectionError ''c''),
             [Create 0, Invoke 0 ''get'' (), Evict 0, Create 1, Invoke 1 ''get'' (),
              Evict 1, Create 2, Invoke 2 ''get'' ()])
   \<and> connection_pools (new_proxy (scripted_env [Raises (ConnectionError ''a''),
                                                  Raises (ConnectionError ''b''),
                                                  Raises (ConnectionError ''c'')
                                                    :: string outcome]) :: unit world)
       = {0}
   \<and> run_script_pools [Raises (ConnectionError ''a''), Raises (ConnectionError ''b''),
                        Raises (ConnectionError ''c'')]
       = Some {2}"
proof -
  let ?E = "scripted_env [Raises (ConnectionError ''a''), Raises (ConnectionError ''b''),
                          Raises (ConnectionError ''c'')] :: (unit, string) env"
  let ?g = "first_guard"
  let ?w = "new_proxy ?E"
  have h1: "behaviour ?E (calls ?w) (mp_client ?g) (mp_method_attr ?g) ()
              = Raises (ConnectionError ''a'')"
    by (simp add: scripted_env_sel new_proxy_facts)
  have h2: "behaviour ?E (Suc (calls ?w)) (next_client ?w) (mp_method_attr ?g) ()
              = Raises (ConnectionError ''b'')"
    by (simp add: scripted_env_sel new_proxy_facts)
  have h3: "behaviour ?E (Suc (Suc (calls ?w))) (Suc (next_client ?w)) (mp_method_attr ?g) ()
              = Raises (ConnectionError ''c'')"
    by (simp add: scripted_env_sel new_proxy_facts)
  have k0: "connection_pools ?w = {0}"
    by (simp add: new_proxy_def create_client_def scripted_env_sel Let_def)
  obtain w' where
    "mp_invoke ?E () (?g, ?w)
       = Some (Inl (ConnectionError ''c''), ?g\<lparr> mp_client := Suc (next_client ?w) \<rparr>, w')"
    and "trace w' = trace ?w @
           [Invoke (mp_client ?g) (mp_method_attr ?g) (),
            Evict (ident_of ?E (mp_client ?g)), Create (next_client ?w),
            Invoke (next_client ?w) (mp_method_attr ?g) (),
            Evict (ident_of ?E (next_client ?w)), Create (Suc (next_client ?w)),
            Invoke (Suc (next_client ?w)) (mp_method_attr ?g) ()]"
    and "connection_pools w' =
               insert (ident_of ?E (Suc (next_client ?w)))
                 (insert (ident_of ?E (next_client ?w))
                    (connection_pools ?w - {ident_of ?E (mp_client ?g)})
                  - {ident_of ?E (next_client ?w)})"
    using three_failures_raise_third_error [OF h1 h2 h3] by blast
  then show ?thesis
    using k0
    by (simp add: run_script_def run_script_pools_def new_proxy_facts scripted_env_sel
                  first_guard_def)
qed

theorem retry_success_value_dropped_witness:
  "run_script [Raises (ConnectionError ''a''), Raises (ConnectionError ''b''),
               Returns (Some ''PONG'')]
     = Some (Inr None,
             [Create 0, Invoke 0 ''get'' (), Evict 0, Create 1, Invoke 1 ''get'' (),
              Evict 1, Create 2, Invoke 2 ''get'' ()])"
proof -
  let ?E = "scripted_env [Raises (ConnectionError ''a''), Raises (ConnectionError ''b''),
                          Returns (Some ''PONG'')] :: (unit, string) env"
  let ?g = "first_guard"
  let ?w = "new_proxy ?E"
  have h1: "behaviour ?E (calls ?w) (mp_client ?g) (mp_method_attr ?g) ()
              = Raises (ConnectionError ''a'')"
    by (simp add: scripted_env_sel new_proxy_facts)
  have h2: "behaviour ?E (Suc (calls ?w)) (next_client ?w) (mp_method_attr ?g) ()
              = Raises (ConnectionError ''b'')"
    by (simp add: scripted_env_sel new_proxy_facts)
  have h3: "behaviour ?E (Suc (Suc (calls ?w))) (Suc (next_client ?w)) (mp_method_attr ?g) ()
              = Returns (Some ''PONG'')"
    by (simp add: scripted_env_sel new_proxy_facts)
  obtain w' where
    "mp_invoke ?E () (?g, ?w)
       = Some (Inr None, ?g\<lparr> mp_client := Suc (next_client ?w) \<rparr>, w')"
    and "trace w' = trace ?w @
           [Invoke (mp_client ?g) (mp_method_attr ?g) (),
            Evict (ident_of ?E (mp_client ?g)), Create (next_client ?w),
            Invoke (next_client ?w) (mp_method_attr ?g) (),
            Evict (ident_of ?E (next_client ?w)), Create (Suc (next_client ?w)),
            Invoke (Suc (next_client ?w)) (mp_method_attr ?g) ()]"
    using retry_success_value_dropped [OF h1 h2 h3] by blast
  then show ?thesis
    by (simp add: run_script_def new_proxy_facts scripted_env_sel first_guard_def)
qed

text \<open>
  C6. An error of the callable that is not a connectivity error ends the call at once,
  at any attempt number \<open>count\<close>: the result is that error as it was raised, the guard
  is unchanged, and the world has changed by the one invocation only, with no eviction,
  no creation and no further invocation. For a whole guarded call this gives: on the
  first attempt, a trace of the one invocation; on the second or third attempt, a trace
  that ends with the failing invocation and holds only the evictions and creations that
  the earlier connectivity failures caused.
\<close>

theorem other_error_propagates_at_once:
  fixes self :: method_proxy and w :: "'a world"
  assumes nc: "\<not> is_connection_error exc"
  shows
    "(behaviour E (calls w) (mp_client self) (mp_method_attr self) args = Raises exc \<longrightarrow>
        mp_call E args count (self, w) = Some (Inl exc, self, invoked self args w)
        \<and> mp_invoke E args (self, w) = Some (Inl exc, self, invoked self args w))
     \<and> trace (invoked self args w)
         = trace w @ [Invoke (mp_client self) (mp_method_attr self) args]
     \<and> connection_pools (invoked self args w) = connection_pools w
     \<and> next_client (invoked self args w) = next_client w
     \<and> proxy_client (invoked self args w) = proxy_client w
     \<and> (behaviour E (calls w) (mp_client self) (mp_method_attr self) args
           = Raises (ConnectionError e1)
         \<and> behaviour E (Suc (calls w)) (next_client w) (mp_method_attr self) args
           = Raises exc \<longrightarrow>
         (\<exists>w'. mp_invoke E args (self, w)
                  = Some (Inl exc, self\<lparr> mp_client := next_client w \<rparr>, w')
            \<and> trace w' = trace w @
                [Invoke (mp_client self) (mp_method_attr self) args,
                 Evict (ident_of E (mp_client self)), Create (next_client w),
                 Invoke (next_client w) (mp_method_attr self) args]))
     \<and> (behaviour E (calls w) (mp_client self) (mp_method_attr self) args
           = Raises (ConnectionError e1)
         \<and> behaviour E (Suc (calls w)) (next_client w) (mp_method_attr self) args
           = Raises (ConnectionError e2)
         \<and> behaviour E (Suc (Suc (calls w))) (Suc (next_client w)) (mp_method_attr self) args
           = Raises exc \<longrightarrow>
         (\<exists>w'. mp_invoke E args (self, w)
                  = Some (Inl exc, self\<lparr> mp_client := Suc (next_client w) \<rparr>, w')
            \<and> trace w' = trace w @
                [Invoke (mp_client self) (mp_method_attr self) args,
                 Evict (ident_of E (mp_client self)), Create (next_client w),
                 Invoke (next_client w) (mp_method_attr self) args,
                 Evict (ident_of E (next_client w)), Create (Suc (next_client w)),
                 Invoke (Suc (next_client w)) (mp_method_attr self) args]))"
proof -
  have first: "behaviour E (calls w) (mp_client self) (mp_method_attr self) args = Raises exc
      \<Longrightarrow> mp_call E args count (self, w) = Some (Inl exc, self, invoked self args w)
          \<and> mp_invoke E args (self, w) = Some (Inl exc, self, invoked self args w)"
    using nc by (simp add: mp_call_other mp_invoke_def)
  have second: "\<exists>w'. mp_invoke E args (self, w)
                  = Some (Inl exc, self\<lparr> mp_client := next_client w \<rparr>, w')
            \<and> trace w' = trace w @
                [Invoke (mp_client self) (mp_method_attr self) args,
                 Evict (ident_of E (mp_client self)), Create (next_client w),
                 Invoke (next_client w) (mp_method_attr self) args]"
    if b1: "behaviour E (calls w) (mp_client self) (mp_method_attr self) args
              = Raises (ConnectionError e1)"
    and b2: "behaviour E (Suc (calls w)) (next_client w) (mp_method_attr self) args = Raises exc"
  proof -
    let ?self1 = "self\<lparr> mp_client := next_client w \<rparr>"
    obtain w1 where c1: "calls w1 = Suc (calls w)"
      and t1: "trace w1 = trace w @
               [Invoke (mp_client self) (mp_method_attr self) args,
                Evict (ident_of E (mp_client self)), Create (next_client w)]"
      and inv: "mp_invoke E args (self, w) =
               Option.bind (mp_call E args 2 (?self1, w1))
                 (\<lambda>res. Some (drop_value (fst res), snd res))"
      using one_failure_then [OF b1] by blast
    have "behaviour E (calls w1) (mp_client ?self1) (mp_method_attr ?self1) args = Raises exc"
      using b2 by (simp add: c1)
    then have "mp_call E args 2 (?self1, w1) = Some (Inl exc, ?self1, invoked ?self1 args w1)"
      using nc by (rule mp_call_other)
    then have "mp_invoke E args (self, w) = Some (Inl exc, ?self1, invoked ?self1 args w1)"
      using inv by simp
    moreover have "trace (invoked ?self1 args w1)
                     = trace w1 @ [Invoke (next_client w) (mp_method_attr self) args]"
      by (simp add: invoked_world)
    ultimately show ?thesis
      using t1 by (intro exI [of _ "invoked ?self1 args w1"]) simp
  qed
  have third: "\<exists>w'. mp_invoke E args (self, w)
                  = Some (Inl exc, self\<lparr> mp_client := Suc (next_client w) \<rparr>, w')
            \<and> trace w' = trace w @
                [Invoke (mp_client self) (mp_method_attr self) args,
                 Evict (ident_of E (mp_client self)), Create (next_client w),
                 Invoke (next_client w) (mp_method_attr self) args,
                 Evict (ident_of E (next_client w)), Create (Suc (next_client w)),
                 Invoke (Suc (next_client w)) (mp_method_attr self) args]"
    if b1: "behaviour E (calls w) (mp_client self) (mp_method_attr self) args
              = Raises (ConnectionError e1)"
    and b2: "behaviour E (Suc (calls w)) (next_client w) (mp_method_attr self) args
              = Raises (ConnectionError e2)"
    and b3: "behaviour E (Suc (Suc (calls w))) (Suc (next_client w)) (mp_method_attr self) args
              = Raises exc"
  proof -
    let ?self2 = "self\<lparr> mp_client := Suc (next_client w) \<rparr>"
    obtain w2 where c2: "calls w2 = Suc (Suc (calls w))"
      and t2: "trace w2 = trace w @
               [Invoke (mp_client self) (mp_method_attr self) args,
                Evict (ident_of E (mp_client self)), Create (next_client w),
                Invoke (next_client w) (mp_method_attr self) args,
                Evict (ident_of E (next_client w)), Create (Suc (next_client w))]"
      and inv: "mp_invoke E args (self, w) =
               Option.bind (mp_call E args 3 (?self2, w2))
                 (\<lambda>res. Some (drop_value (fst res), snd res))"
      using two_failures_then [OF b1 b2] by blast
    have "behaviour E (calls w2) (mp_client ?self2) (mp_method_attr ?self2) args = Raises exc"
      using b3 by (simp add: c2)
    then have "mp_call E args 3 (?self2, w2) = Some (Inl exc, ?self2, invoked ?self2 args w2)"
      using nc by (rule mp_call_other)
    then have "mp_invoke E args (self, w) = Some (Inl exc, ?self2, invoked ?self2 args w2)"
      using inv by simp
    moreover have "trace (invoked ?self2 args w2)
                     = trace w2 @ [Invoke (Suc (next_client w)) (mp_method_attr self) args]"
      by (simp add: invoked_world)
    ultimately show ?thesis
      using t2 by (intro exI [of _ "invoked ?self2 args w2"]) simp
  qed
  show ?thesis
    using first second third by (simp add: invoked_world)
qed

theorem other_error_propagates_at_once_witness:
  "\<not> is_connection_error (OtherError ''boom'')
   \<and> run_script [Raises (OtherError ''boom'')]
       = Some (Inl (OtherError ''boom''), [Create 0, Invoke 0 ''get'' ()])
   \<and> run_script [Raises (ConnectionError ''a''), Raises (OtherError ''boom'')]
       = Some (Inl (OtherError ''boom''),
               [Create 0, Invoke 0 ''get'' (), Evict 0, Create 1, Invoke 1 ''get'' ()])
   \<and> run_script [Raises (ConnectionError ''a''), Raises (ConnectionError ''b''),
                 Raises (OtherError ''boom'')]
       = Some (Inl (OtherError ''boom''),
               [Create 0, Invoke 0 ''get'' (), Evict 0, Create 1, Invoke 1 ''get'' (),
                Evict 1, Create 2, Invoke 2 ''get'' ()])"
proof -
  let ?E1 = "scripted_env [Raises (OtherError ''boom'')] :: (unit, string) env"
  let ?E2 = "scripted_env [Raises (ConnectionError ''a''), Raises (OtherError ''boom'')]
               :: (unit, string) env"
  let ?E3 = "scripted_env [Raises (ConnectionError ''a''), Raises (ConnectionError ''b''),
                           Raises (OtherError ''boom'')] :: (unit, string) env"
  have nc: "\<not> is_connection_error (OtherError ''boom'')" by simp
  have r1: "run_script [Raises (OtherError ''boom'')]
       = Some (Inl (OtherError ''boom''), [Create 0, Invoke 0 ''get'' ()])"
    using other_error_propagates_at_once
            [OF nc, of ?E1 "new_proxy ?E1" first_guard "()" 1 "''a''" "''b''"]
    by (simp add: run_script_def new_proxy_facts scripted_env_sel first_guard_def)
  have r2: "run_script [Raises (ConnectionError ''a''), Raises (OtherError ''boom'')]
       = Some (Inl (OtherError ''boom''),
               [Create 0, Invoke 0 ''get'' (), Evict 0, Create 1, Invoke 1 ''get'' ()])"
    using other_error_propagates_at_once
            [OF nc, of ?E2 "new_proxy ?E2" first_guard "()" 1 "''a''" "''b''"]
    by (auto simp add: run_script_def new_proxy_facts scripted_env_sel first_guard_def)
  have r3: "run_script [Raises (ConnectionError ''a''), Raises (ConnectionError ''b''),
                 Raises (OtherError ''boom'')]
       = Some (Inl (OtherError ''boom''),
               [Create 0, Invoke 0 ''get'' (), Evict 0, Create 1, Invoke 1 ''get'' (),
                Evict 1, Create 2, Invoke 2 ''get'' ()])"
    using other_error_propagates_at_once
            [OF nc, of ?E3 "new_proxy ?E3" first_guard "()" 1 "''a''" "''b''"]
    by (auto simp add: run_script_def new_proxy_facts scripted_env_sel first_guard_def)
  show ?thesis using nc r1 r2 r3 by simp
qed

text \<open>
  C4, as the code behaves. A guard is built with the client the proxy holds at that
  moment, and a cached guard is handed out as it is. Every invocation of a guard
  returns, and its first attempt runs on the guard's own client field; the proxy's
  current client is not read. When the first attempt meets no connectivity failure,
  the guard keeps its client and the proxy's client stays as it was. When it meets one,
  the guard evicts, creates a new client and makes the next attempt on it, and after
  the call the guard's client and the proxy's current client are both the client
  created last, one that was created during this call.
\<close>

theorem guard_dispatches_on_own_client:
  fixes self :: method_proxy and w :: "'a world"
  shows
  "(attribute E (proxy_client w) attr = Some Callable \<and> method_cache w attr = None \<longrightarrow>
      fst (proxy_getattr E attr w)
        = Inr (Guard \<lparr> mp_client = proxy_client w, mp_method_attr = attr \<rparr>)
      \<and> cached_client attr (snd (proxy_getattr E attr w)) = Some (proxy_client w))
   \<and> (attribute E (proxy_client w) attr = Some Callable \<and> method_cache w attr = Some mp \<longrightarrow>
        proxy_getattr E attr w = (Inr (Guard mp), w))
   \<and> (\<exists>r self' w' evs.
         mp_invoke E args (self, w) = Some (r, self', w')
         \<and> trace w' = trace w @ Invoke (mp_client self) (mp_method_attr self) args # evs)
   \<and> ((\<forall>e. behaviour E (calls w) (mp_client self) (mp_method_attr self) args
               \<noteq> Raises (ConnectionError e)) \<longrightarrow>
        (\<exists>r. mp_invoke E args (self, w) = Some (r, self, invoked self args w))
        \<and> proxy_client (invoked self args w) = proxy_client w
        \<and> trace (invoked self args w)
            = trace w @ [Invoke (mp_client self) (mp_method_attr self) args])
   \<and> (behaviour E (calls w) (mp_client self) (mp_method_attr self) args
         = Raises (ConnectionError e) \<longrightarrow>
        (\<exists>r self' w' evs.
           mp_invoke E args (self, w) = Some (r, self', w')
           \<and> trace w' = trace w @
               [Invoke (mp_client self) (mp_method_attr self) args,
                Evict (ident_of E (mp_client self)), Create (next_client w),
                Invoke (next_client w) (mp_method_attr self) args] @ evs
           \<and> mp_client self' = proxy_client w'
           \<and> Suc (mp_client self') = next_client w'
           \<and> next_client w \<le> mp_client self'
           \<and> Create (mp_client self') \<in> set (trace w')))"
proof -
  have first: "\<exists>r self' w' evs.
         mp_invoke E args (self, w) = Some (r, self', w')
         \<and> trace w' = trace w @ Invoke (mp_client self) (mp_method_attr self) args # evs"
    using mp_call_total [of 1 E args self w]
    unfolding mp_invoke_def by (simp add: max_call_count_def) blast
  have quiet: "\<exists>r. mp_invoke E args (self, w) = Some (r, self, invoked self args w)"
    if nf: "\<forall>e. behaviour E (calls w) (mp_client self) (mp_method_attr self) args
               \<noteq> Raises (ConnectionError e)"
  proof (cases "behaviour E (calls w) (mp_client self) (mp_method_attr self) args")
    case (Returns v)
    then show ?thesis by (simp add: mp_invoke_def mp_call_returns)
  next
    case (Raises exc)
    with nf have "\<not> is_connection_error exc" by (cases exc) auto
    with Raises show ?thesis by (simp add: mp_invoke_def mp_call_other)
  qed
  have getattr: "(attribute E (proxy_client w) attr = Some Callable \<and> method_cache w attr = None \<longrightarrow>
      fst (proxy_getattr E attr w)
        = Inr (Guard \<lparr> mp_client = proxy_client w, mp_method_attr = attr \<rparr>)
      \<and> cached_client attr (snd (proxy_getattr E attr w)) = Some (proxy_client w))
   \<and> (attribute E (proxy_client w) attr = Some Callable \<and> method_cache w attr = Some mp \<longrightarrow>
        proxy_getattr E attr w = (Inr (Guard mp), w))"
    by (simp add: proxy_getattr_def cached_client_def Let_def)
  show ?thesis
    using getattr first quiet first_failure_recovers [of E w self args e]
    by (simp add: invoked_world)
qed

theorem guard_dispatches_on_own_client_witness:
  "attribute two_guards_env (proxy_client (new_proxy two_guards_env)) ''get'' = Some Callable
   \<and> method_cache (new_proxy two_guards_env :: unit world) ''get'' = None
   \<and> fst (proxy_getattr two_guards_env ''get'' (new_proxy two_guards_env))
       = Inr (Guard \<lparr> mp_client = 0, mp_method_attr = ''get'' \<rparr>)
   \<and> method_cache (snd (proxy_getattr two_guards_env ''get'' (new_proxy two_guards_env)))
        ''get'' = Some \<lparr> mp_client = 0, mp_method_attr = ''get'' \<rparr>
   \<and> fst (proxy_getattr two_guards_env ''get''
             (snd (proxy_getattr two_guards_env ''get'' (new_proxy two_guards_env))))
       = Inr (Guard \<lparr> mp_client = 0, mp_method_attr = ''get'' \<rparr>)
   \<and> behaviour two_guards_env (calls (new_proxy two_guards_env :: unit world))
         (mp_client first_guard) (mp_method_attr first_guard) ()
       = Raises (ConnectionError ''lost'')
   \<and> (\<exists>r self' w' evs.
         mp_invoke two_guards_env () (first_guard, new_proxy two_guards_env) = Some (r, self', w')
         \<and> trace w' = [Create 0, Invoke 0 ''get'' (), Evict 0, Create 1, Invoke 1 ''get'' ()] @ evs
         \<and> mp_client self' = proxy_client w'
         \<and> Suc (mp_client self') = next_client w'
         \<and> 1 \<le> mp_client self'
         \<and> Create (mp_client self') \<in> set (trace w'))
   \<and> run_script_clients [Raises (ConnectionError ''lost''), Returns (Some ''OK''),
                          Returns (Some ''value'')]
       = Some (1, 1)"
proof -
  let ?E = two_guards_env
  let ?w0 = "new_proxy ?E :: unit world"
  let ?w1 = "snd (proxy_getattr ?E ''get'' ?w0)"
  let ?g = "\<lparr> mp_client = 0, mp_method_attr = ''get'' \<rparr>"
  have a: "attribute ?E (proxy_client ?w0) ''get'' = Some Callable"
    by (simp add: two_guards_env_def scripted_env_sel)
  have c0: "method_cache ?w0 ''get'' = None"
    by (simp add: new_proxy_facts)
  have g0: "fst (proxy_getattr ?E ''get'' ?w0) = Inr (Guard ?g)"
    using guard_dispatches_on_own_client [of ?E ?w0 "''get''" ?g "()" ?g] a c0
    by (simp add: new_proxy_facts)
  have c1: "method_cache ?w1 ''get'' = Some ?g"
    using a c0 by (simp add: proxy_getattr_def new_proxy_facts Let_def)
  have p1: "proxy_client ?w1 = 0"
    using a c0 by (simp add: proxy_getattr_def new_proxy_facts Let_def)
  have a1: "attribute ?E (proxy_client ?w1) ''get'' = Some Callable"
    by (simp add: two_guards_env_def scripted_env_sel)
  have g1: "fst (proxy_getattr ?E ''get'' ?w1) = Inr (Guard ?g)"
    using guard_dispatches_on_own_client [of ?E ?w1 "''get''" ?g "()" ?g] a1 c1
    by simp
  have b: "behaviour ?E (calls ?w0) (mp_client first_guard) (mp_method_attr first_guard) ()
             = Raises (ConnectionError ''lost'')"
    by (simp add: two_guards_env_def scripted_env_sel new_proxy_facts)
  have rec: "\<exists>r self' w' evs.
         mp_invoke ?E () (first_guard, ?w0) = Some (r, self', w')
         \<and> trace w' = [Create 0, Invoke 0 ''get'' (), Evict 0, Create 1, Invoke 1 ''get'' ()] @ evs
         \<and> mp_client self' = proxy_client w'
         \<and> Suc (mp_client self') = next_client w'
         \<and> 1 \<le> mp_client self'
         \<and> Create (mp_client self') \<in> set (trace w')"
    using guard_dispatches_on_own_client
            [of ?E ?w0 "''get''" ?g "()" first_guard "''lost''"] b
    by (simp add: new_proxy_facts first_guard_def two_guards_env_def scripted_env_sel)
  have cl: "run_script_clients [Raises (ConnectionError ''lost''), Returns (Some ''OK''),
                          Returns (Some ''value'')] = Some (1, 1)"
    by code_simp
  show ?thesis using a c0 g0 c1 g1 b rec cl by simp
qed

text \<open>
  The claim C4 fails: after the guard of \<^verbatim>\<open>set\<close> has recovered, the proxy holds
  client 1, the cached guard of \<^verbatim>\<open>get\<close> still holds client 0, and the next
  \<^verbatim>\<open>proxy.get()\<close> calls \<^verbatim>\<open>get\<close> on client 0.
\<close>

theorem stale_guard_counterexample:
  "map_option proxy_client two_guards_mid = Some 1
   \<and> Option.bind two_guards_mid (cached_client ''get'') = Some 0
   \<and> map_option (trace \<circ> snd) two_guards_run
       = Some [Create 0, Invoke 0 ''set'' (), Evict 0, Create 1, Invoke 1 ''set'' (),
               Invoke 0 ''get'' ()]
   \<and> map_option (proxy_client \<circ> snd) two_guards_run = Some 1"
  by code_simp

section \<open>Properties of the address parser\<close>

subsection \<open>The steps of the URL form\<close>

lemma rename_deprecated_other:
  "k \<noteq> old \<Longrightarrow> k \<noteq> new \<Longrightarrow> fst (rename_deprecated old new st) k = fst st k"
  by (simp add: rename_deprecated_def split: option.splits)

lemma rename_deprecated_fst:
  "fst (rename_deprecated old new (kw, ws)) = fst (rename_deprecated old new (kw, ws'))"
  by (simp add: rename_deprecated_def split: option.splits)

lemma renamed_key:
  assumes "k \<noteq> ''charset''" "k \<noteq> ''encoding''" "k \<noteq> ''errors''" "k \<noteq> ''encoding_errors''"
  shows "fst (rename_deprecated ''errors'' ''encoding_errors''
                (rename_deprecated ''charset'' ''encoding'' (kw, ws))) k = kw k"
  using assms by (simp add: rename_deprecated_other)

lemma last_shot_db_cases:
  "last_shot_db L db o1 = Inr o2 \<Longrightarrow>
     \<exists>n. py_int L (case o1 ''db'' of Some v \<Rightarrow> v | None \<Rightarrow> py_or db (PInt 0)) = Inr n
         \<and> o2 = o1(''db'' \<mapsto> PInt n)"
  by (auto simp: last_shot_db_def split: sum.splits)

lemma last_shot_db_int:
  "py_int L (case o1 ''db'' of Some v \<Rightarrow> v | None \<Rightarrow> py_or db (PInt 0)) = Inr n
   \<Longrightarrow> last_shot_db L db o1 = Inr (o1(''db'' \<mapsto> PInt n))"
  by (simp add: last_shot_db_def)

lemma url_form_ok:
  assumes "split_url_query L server = Inr (u, qs)"
      and "scheme_options L u (query_options L qs) = Inr o1"
      and "last_shot_db L db o1 = Inr o2"
  shows "succeeded (url_form L server db kwargs ws)"
    and "k \<noteq> ''charset'' \<Longrightarrow> k \<noteq> ''encoding'' \<Longrightarrow> k \<noteq> ''errors''
           \<Longrightarrow> k \<noteq> ''encoding_errors''
           \<Longrightarrow> param k (url_form L server db kwargs ws) = (kwargs ++ o2) k"
  using assms by (simp_all add: url_form_def Let_def renamed_key)

lemma url_form_succeeded:
  assumes "succeeded (url_form L server db kwargs ws)"
  shows "\<exists>u qs o1 o2. split_url_query L server = Inr (u, qs)
           \<and> scheme_options L u (query_options L qs) = Inr o1
           \<and> last_shot_db L db o1 = Inr o2"
  using assms by (auto simp: url_form_def Let_def split: sum.splits prod.splits)

lemma parse_url_form:
  "contains ''://'' server \<Longrightarrow>
     parse_connection_kwargs L server db kwargs ws
       = url_form L server db (kwargs(''unix_socket_path'' \<mapsto> PStr '''')) ws"
  by (simp add: parse_connection_kwargs_def)

lemma parse_plain_form:
  "\<not> contains ''://'' server \<Longrightarrow>
     parse_connection_kwargs L server db kwargs ws
       = (plain_form L server db (kwargs(''unix_socket_path'' \<mapsto> PStr '''')), ws)"
  by (simp add: parse_connection_kwargs_def)

text \<open>What the scheme dispatch leaves under the key \<^verbatim>\<open>db\<close>.\<close>

lemma scheme_options_unix:
  "url_scheme u = ''unix'' \<Longrightarrow>
     scheme_options L u opts
       = Inr (opts(''password'' \<mapsto> opt_pv (url_password u),
                   ''unix_socket_path'' \<mapsto> PStr (url_path u)))"
  by (simp add: scheme_options_def)

lemma scheme_options_tcp:
  assumes "url_scheme u \<noteq> ''unix''" "url_port u = Inr p"
  shows "\<exists>o1. scheme_options L u opts = Inr o1
           \<and> o1 ''db'' = path_db L u (opts(''host'' \<mapsto> opt_pv (url_hostname u),
                                          ''port'' \<mapsto> PInt (int_or p 6379),
                                          ''password'' \<mapsto> opt_pv (url_password u))) ''db''
           \<and> o1 ''host'' = Some (opt_pv (url_hostname u))
           \<and> o1 ''port'' = Some (PInt (int_or p 6379))
           \<and> o1 ''password'' = Some (opt_pv (url_password u))
           \<and> o1 ''connection_class'' =
                (if url_scheme u = ''rediss'' then Some (PClass ''SSLConnection'')
                 else opts ''connection_class'')"
  using assms
  by (simp add: scheme_options_def Let_def path_db_def split: option.splits)

lemma path_db_db:
  "path_db L u opts ''db'' =
     (case opts ''db'' of
        Some v \<Rightarrow> Some v
      | None \<Rightarrow>
          if url_path u \<noteq> [] then
            (case int_of_str L (remove_char CHR ''/'' (url_path u)) of
               Some n \<Rightarrow> Some (PInt n)
             | None \<Rightarrow> None)
          else None)"
  by (simp add: path_db_def split: option.splits)

lemma scheme_options_db:
  assumes "url_scheme u = ''unix'' \<or> url_port u = Inr p"
  shows "\<exists>o1. scheme_options L u opts = Inr o1
           \<and> o1 ''db'' =
               (case opts ''db'' of
                  Some v \<Rightarrow> Some v
                | None \<Rightarrow>
                    if url_scheme u \<noteq> ''unix'' \<and> url_path u \<noteq> [] then
                      (case int_of_str L (remove_char CHR ''/'' (url_path u)) of
                         Some n \<Rightarrow> Some (PInt n)
                       | None \<Rightarrow> None)
                    else None)
           \<and> (url_scheme u = ''unix'' \<longrightarrow>
                 o1 ''unix_socket_path'' = Some (PStr (url_path u)))"
proof (cases "url_scheme u = ''unix''")
  case True
  then show ?thesis
    by (simp add: scheme_options_unix split: option.splits)
next
  case False
  with assms have p: "url_port u = Inr p" by simp
  obtain o1 where "scheme_options L u opts = Inr o1"
    and "o1 ''db'' = path_db L u (opts(''host'' \<mapsto> opt_pv (url_hostname u),
                                       ''port'' \<mapsto> PInt (int_or p 6379),
                                       ''password'' \<mapsto> opt_pv (url_password u))) ''db''"
    using scheme_options_tcp [OF False p, of L opts] by blast
  then show ?thesis
    using False by (simp add: path_db_db split: option.splits)
qed

lemma url_form_db:
  assumes sp: "split_url_query L server = Inr (u, qs)"
      and so: "scheme_options L u (query_options L qs) = Inr o1"
      and n: "py_int L (case o1 ''db'' of Some v \<Rightarrow> v | None \<Rightarrow> py_or db (PInt 0)) = Inr n"
  shows "succeeded (url_form L server db kwargs ws)"
    and "param ''db'' (url_form L server db kwargs ws) = Some (PInt n)"
    and "k \<noteq> ''db'' \<Longrightarrow> k \<noteq> ''charset'' \<Longrightarrow> k \<noteq> ''encoding'' \<Longrightarrow> k \<noteq> ''errors''
           \<Longrightarrow> k \<noteq> ''encoding_errors''
           \<Longrightarrow> param k (url_form L server db kwargs ws) = (kwargs ++ o1) k"
proof -
  have ls: "last_shot_db L db o1 = Inr (o1(''db'' \<mapsto> PInt n))"
    using n by (rule last_shot_db_int)
  show "succeeded (url_form L server db kwargs ws)"
    using url_form_ok(1) [OF sp so ls] .
  show "param ''db'' (url_form L server db kwargs ws) = Some (PInt n)"
    using url_form_ok(2) [OF sp so ls, of "''db''" kwargs ws] by simp
  show "param k (url_form L server db kwargs ws) = (kwargs ++ o1) k"
    if "k \<noteq> ''db''" "k \<noteq> ''charset''" "k \<noteq> ''encoding''" "k \<noteq> ''errors''"
       "k \<noteq> ''encoding_errors''"
    using url_form_ok(2) [OF sp so ls, of k kwargs ws] that by (simp add: map_add_def)
qed

lemma default_db_int:
  "db = PNone \<and> d = 0 \<or> db = PInt d \<Longrightarrow> py_int L (py_or db (PInt 0)) = Inr d"
  by (auto simp: py_or_def)

text \<open>
  The value that the URL form puts under \<^verbatim>\<open>db\<close>: \<^verbatim>\<open>int\<close> of the \<^verbatim>\<open>db\<close> query
  parameter, else of the numeric path (not for \<^verbatim>\<open>unix\<close>), else of
  \<^verbatim>\<open>db or 0\<close>.
\<close>

lemma url_db_selected:
  assumes url: "contains ''://'' server"
      and sp: "split_url_query L server = Inr (u, qs)"
      and port: "url_scheme u = ''unix'' \<or> url_port u = Inr p"
      and sel: "py_int L
                  (case (case query_options L qs ''db'' of
                           Some v \<Rightarrow> Some v
                         | None \<Rightarrow>
                             if url_scheme u \<noteq> ''unix'' \<and> url_path u \<noteq> [] then
                               (case int_of_str L (remove_char CHR ''/'' (url_path u)) of
                                  Some n \<Rightarrow> Some (PInt n)
                                | None \<Rightarrow> None)
                             else None) of
                     Some v \<Rightarrow> v
                   | None \<Rightarrow> py_or db (PInt 0)) = Inr n"
  shows "succeeded (parse_connection_kwargs L server db kwargs ws)"
    and "param ''db'' (parse_connection_kwargs L server db kwargs ws) = Some (PInt n)"
proof -
  let ?kw = "kwargs(''unix_socket_path'' \<mapsto> PStr '''')"
  obtain o1 where so: "scheme_options L u (query_options L qs) = Inr o1"
    and odb: "o1 ''db'' =
               (case query_options L qs ''db'' of
                  Some v \<Rightarrow> Some v
                | None \<Rightarrow>
                    if url_scheme u \<noteq> ''unix'' \<and> url_path u \<noteq> [] then
                      (case int_of_str L (remove_char CHR ''/'' (url_path u)) of
                         Some n \<Rightarrow> Some (PInt n)
                       | None \<Rightarrow> None)
                    else None)"
    using scheme_options_db [OF port, of L "query_options L qs"] by blast
  have n: "py_int L (case o1 ''db'' of Some v \<Rightarrow> v | None \<Rightarrow> py_or db (PInt 0)) = Inr n"
    using sel by (simp only: odb)
  show "succeeded (parse_connection_kwargs L server db kwargs ws)"
    using url_form_db(1) [OF sp so n, of ?kw ws] url by (simp add: parse_url_form)
  show "param ''db'' (parse_connection_kwargs L server db kwargs ws) = Some (PInt n)"
    using url_form_db(2) [OF sp so n, of ?kw ws] url by (simp add: parse_url_form)
qed

lemma url_unix_socket_path:
  assumes url: "contains ''://'' server"
      and sp: "split_url_query L server = Inr (u, qs)"
      and unix: "url_scheme u = ''unix''"
      and ok: "succeeded (parse_connection_kwargs L server db kwargs ws)"
  shows "param ''unix_socket_path'' (parse_connection_kwargs L server db kwargs ws)
           = Some (PStr (url_path u))"
proof -
  let ?kw = "kwargs(''unix_socket_path'' \<mapsto> PStr '''')"
  have ok': "succeeded (url_form L server db ?kw ws)"
    using ok url by (simp add: parse_url_form)
  obtain u' qs' o1 o2 where sp': "split_url_query L server = Inr (u', qs')"
    and so: "scheme_options L u' (query_options L qs') = Inr o1"
    and ls: "last_shot_db L db o1 = Inr o2"
    using url_form_succeeded [OF ok'] by blast
  have eq: "u' = u" "qs' = qs" using sp sp' by simp_all
  have o1: "o1 ''unix_socket_path'' = Some (PStr (url_path u))"
    using so unix eq by (auto simp: scheme_options_unix)
  obtain n where o2: "o2 = o1(''db'' \<mapsto> PInt n)"
    using last_shot_db_cases [OF ls] by blast
  show ?thesis
    using url_form_ok(2) [OF sp' so ls, of "''unix_socket_path''" ?kw ws] o1 o2 url
    by (simp add: parse_url_form)
qed

subsection \<open>The claims about the database number\<close>

text \<open>
  C7. For a URL-form address that the URL library accepts, the database number is
  resolved by the first match. A numeric \<^verbatim>\<open>db\<close> query parameter gives the database,
  whatever the path and the caller default are. Without a \<^verbatim>\<open>db\<close> query parameter,
  for the TCP schemes (every scheme but \<^verbatim>\<open>unix\<close>, whose path is the socket path), a
  path that is numeric once its slashes are removed gives the database, whatever the
  caller default is; a path that is empty or not numeric is ignored without an error,
  and the database is the caller default, read as an integer \<open>d\<close>: 0 when the caller
  gives none, the integer when the caller gives one.
\<close>

theorem db_precedence:
  assumes url: "contains ''://'' server"
      and sp: "split_url_query L server = Inr (u, qs)"
      and port: "url_scheme u = ''unix'' \<or> url_port u = Inr p"
  shows
    "(query_options L qs ''db'' = Some (PStr q) \<and> int_of_str L q = Some n \<longrightarrow>
        param ''db'' (parse_connection_kwargs L server db kwargs ws) = Some (PInt n))
     \<and> (query_options L qs ''db'' = None \<and> url_scheme u \<noteq> ''unix'' \<and> url_path u \<noteq> []
          \<and> int_of_str L (remove_char CHR ''/'' (url_path u)) = Some n \<longrightarrow>
        param ''db'' (parse_connection_kwargs L server db kwargs ws) = Some (PInt n))
     \<and> (query_options L qs ''db'' = None \<and> url_scheme u \<noteq> ''unix''
          \<and> (url_path u = [] \<or> int_of_str L (remove_char CHR ''/'' (url_path u)) = None)
          \<and> py_int L (py_or db (PInt 0)) = Inr d \<longrightarrow>
        succeeded (parse_connection_kwargs L server db kwargs ws)
        \<and> param ''db'' (parse_connection_kwargs L server db kwargs ws) = Some (PInt d))
     \<and> (query_options L qs ''db'' = None \<and> url_scheme u = ''unix''
          \<and> py_int L (py_or db (PInt 0)) = Inr d \<longrightarrow>
        param ''db'' (parse_connection_kwargs L server db kwargs ws) = Some (PInt d)
        \<and> param ''unix_socket_path'' (parse_connection_kwargs L server db kwargs ws)
            = Some (PStr (url_path u)))
     \<and> py_int L (py_or PNone (PInt 0)) = Inr 0
     \<and> py_int L (py_or (PInt k) (PInt 0)) = Inr k"
proof -
  let ?R = "parse_connection_kwargs L server db kwargs ws"
  have c1: "param ''db'' ?R = Some (PInt n)"
    if "query_options L qs ''db'' = Some (PStr q)" "int_of_str L q = Some n"
    using url_db_selected(2) [OF url sp port, of db n kwargs ws] that by simp
  have c2: "param ''db'' ?R = Some (PInt n)"
    if "query_options L qs ''db'' = None" "url_scheme u \<noteq> ''unix''" "url_path u \<noteq> []"
       "int_of_str L (remove_char CHR ''/'' (url_path u)) = Some n"
    using url_db_selected(2) [OF url sp port, of db n kwargs ws] that by simp
  have c3: "succeeded ?R \<and> param ''db'' ?R = Some (PInt d)"
    if "query_options L qs ''db'' = None" "url_scheme u \<noteq> ''unix''"
       "url_path u = [] \<or> int_of_str L (remove_char CHR ''/'' (url_path u)) = None"
       "py_int L (py_or db (PInt 0)) = Inr d"
    using url_db_selected [OF url sp port, of db d kwargs ws] that by auto
  have c4: "param ''db'' ?R = Some (PInt d)
            \<and> param ''unix_socket_path'' ?R = Some (PStr (url_path u))"
    if q: "query_options L qs ''db'' = None" and ux: "url_scheme u = ''unix''"
       and d: "py_int L (py_or db (PInt 0)) = Inr d"
  proof -
    have "succeeded ?R" "param ''db'' ?R = Some (PInt d)"
      using url_db_selected [OF url sp port, of db d kwargs ws] q ux d by simp_all
    then show ?thesis
      using url_unix_socket_path [OF url sp ux] by simp
  qed
  have c5: "py_int L (py_or PNone (PInt 0)) = Inr 0"
    "py_int L (py_or (PInt k) (PInt 0)) = Inr k"
    by (simp_all add: py_or_def)
  show ?thesis
    using c1 c2 c3 c4 c5 by blast
qed

theorem db_precedence_witness:
  "contains ''://'' ''redis://localhost/7?db=5''
   \<and> query_options stdlib ''db=5'' ''db'' = Some (PStr ''5'')
   \<and> int_of_str stdlib ''5'' = Some 5
   \<and> param ''db'' (parse_connection_kwargs stdlib ''redis://localhost/7?db=5'' (PInt 9)
                      Map.empty [])
       = Some (PInt 5)
   \<and> int_of_str stdlib (remove_char CHR ''/'' ''/7'') = Some 7
   \<and> param ''db'' (parse_connection_kwargs stdlib ''redis://localhost/7'' (PInt 9)
                      Map.empty [])
       = Some (PInt 7)
   \<and> int_of_str stdlib (remove_char CHR ''/'' ''/abc'') = None
   \<and> py_int stdlib (py_or (PInt 9) (PInt 0)) = Inr 9
   \<and> succeeded (parse_connection_kwargs stdlib ''redis://localhost/abc'' (PInt 9)
                   Map.empty [])
   \<and> param ''db'' (parse_connection_kwargs stdlib ''redis://localhost/abc'' (PInt 9)
                      Map.empty [])
       = Some (PInt 9)
   \<and> param ''db'' (parse_connection_kwargs stdlib ''unix:///tmp/redis.sock'' PNone
                      Map.empty [])
       = Some (PInt 0)
   \<and> param ''unix_socket_path''
         (parse_connection_kwargs stdlib ''unix:///tmp/redis.sock'' PNone Map.empty [])
       = Some (PStr ''/tmp/redis.sock'')"
proof -
  let ?u1 = "\<lparr> url_scheme = ''redis'', url_path = ''/7'', url_query = ''db=5'',
                url_hostname = Some ''localhost'', url_port = Inr None,
                url_password = None \<rparr>"
  let ?u2 = "\<lparr> url_scheme = ''redis'', url_path = ''/7'', url_query = '''',
                url_hostname = Some ''localhost'', url_port = Inr None,
                url_password = None \<rparr>"
  let ?u3 = "\<lparr> url_scheme = ''redis'', url_path = ''/abc'', url_query = '''',
                url_hostname = Some ''localhost'', url_port = Inr None,
                url_password = None \<rparr>"
  let ?u4 = "\<lparr> url_scheme = ''unix'', url_path = ''/tmp/redis.sock'', url_query = '''',
                url_hostname = None, url_port = Inr None, url_password = None \<rparr>"
  have d9: "py_int stdlib (py_or (PInt 9) (PInt 0)) = Inr 9" by (simp add: py_or_def)
  have d0: "py_int stdlib (py_or PNone (PInt 0)) = Inr 0" by (simp add: py_or_def)
  have a1: "contains ''://'' ''redis://localhost/7?db=5''" by simp
  have s1: "split_url_query stdlib ''redis://localhost/7?db=5'' = Inr (?u1, ''db=5'')"
    by code_simp
  have p1: "url_scheme ?u1 = ''unix'' \<or> url_port ?u1 = Inr None" by simp
  have q1: "query_options stdlib ''db=5'' ''db'' = Some (PStr ''5'')" by code_simp
  have i1: "int_of_str stdlib ''5'' = Some 5" by code_simp
  have r1: "param ''db'' (parse_connection_kwargs stdlib ''redis://localhost/7?db=5'' (PInt 9)
                      Map.empty []) = Some (PInt 5)"
    using db_precedence [OF a1 s1 p1, of "''5''" 5 "PInt 9" Map.empty "[]" 9 0] q1 i1 by simp
  have a2: "contains ''://'' ''redis://localhost/7''" by simp
  have s2: "split_url_query stdlib ''redis://localhost/7'' = Inr (?u2, '''')"
    by code_simp
  have p2: "url_scheme ?u2 = ''unix'' \<or> url_port ?u2 = Inr None" by simp
  have q2: "query_options stdlib '''' ''db'' = None" by code_simp
  have i2: "int_of_str stdlib (remove_char CHR ''/'' ''/7'') = Some 7" by code_simp
  have r2: "param ''db'' (parse_connection_kwargs stdlib ''redis://localhost/7'' (PInt 9)
                      Map.empty []) = Some (PInt 7)"
    using db_precedence [OF a2 s2 p2, of "''5''" 7 "PInt 9" Map.empty "[]" 9 0] q2 i2 by simp
  have a3: "contains ''://'' ''redis://localhost/abc''" by simp
  have s3: "split_url_query stdlib ''redis://localhost/abc'' = Inr (?u3, '''')"
    by code_simp
  have p3: "url_scheme ?u3 = ''unix'' \<or> url_port ?u3 = Inr None" by simp
  have i3: "int_of_str stdlib (remove_char CHR ''/'' ''/abc'') = None" by code_simp
  have r3: "succeeded (parse_connection_kwargs stdlib ''redis://localhost/abc'' (PInt 9)
                   Map.empty [])
            \<and> param ''db'' (parse_connection_kwargs stdlib ''redis://localhost/abc'' (PInt 9)
                      Map.empty []) = Some (PInt 9)"
    using db_precedence [OF a3 s3 p3, of "''5''" 7 "PInt 9" Map.empty "[]" 9 0] q2 i3 d9
    by simp
  have a4: "contains ''://'' ''unix:///tmp/redis.sock''" by simp
  have s4: "split_url_query stdlib ''unix:///tmp/redis.sock'' = Inr (?u4, '''')"
    by code_simp
  have p4: "url_scheme ?u4 = ''unix'' \<or> url_port ?u4 = Inr None" by simp
  have r4: "param ''db'' (parse_connection_kwargs stdlib ''unix:///tmp/redis.sock'' PNone
                      Map.empty []) = Some (PInt 0)
            \<and> param ''unix_socket_path''
                 (parse_connection_kwargs stdlib ''unix:///tmp/redis.sock'' PNone Map.empty [])
                = Some (PStr ''/tmp/redis.sock'')"
    using db_precedence [OF a4 s4 p4, of "''5''" 7 PNone Map.empty "[]" 0 0] q2 d0 by simp
  show ?thesis
    using a1 q1 i1 r1 i2 r2 i3 d9 r3 r4 by simp
qed

lemma url_form_db_is_int:
  assumes "succeeded (url_form L server db kwargs ws)"
  shows "\<exists>n. param ''db'' (url_form L server db kwargs ws) = Some (PInt n)"
proof -
  obtain u qs o1 o2 where sp: "split_url_query L server = Inr (u, qs)"
    and so: "scheme_options L u (query_options L qs) = Inr o1"
    and ls: "last_shot_db L db o1 = Inr o2"
    using url_form_succeeded [OF assms] by blast
  obtain n where "o2 = o1(''db'' \<mapsto> PInt n)"
    using last_shot_db_cases [OF ls] by blast
  then have "param ''db'' (url_form L server db kwargs ws) = Some (PInt n)"
    using url_form_ok(2) [OF sp so ls, of "''db''" kwargs ws] by simp
  then show ?thesis ..
qed

lemma plain_form_db:
  "plain_form L server db kwargs = Inr kw \<Longrightarrow> kw ''db'' = Some db"
  by (auto simp: plain_form_def split: if_splits option.splits)

lemma plain_form_param_db:
  assumes "succeeded (plain_form L server db kwargs, ws)"
  shows "param ''db'' (plain_form L server db kwargs, ws) = Some db"
proof (cases "plain_form L server db kwargs")
  case (Inl e)
  with assms show ?thesis by simp
next
  case (Inr kw)
  then show ?thesis using plain_form_db [OF Inr] by simp
qed

text \<open>
  C3, as the code behaves. A URL-form address that parses has an integer under
  \<^verbatim>\<open>db\<close>, never \<^verbatim>\<open>None\<close> and never nothing. For one that the URL library
  accepts, the integer is the value of its source as \<^verbatim>\<open>int\<close> reads it, with no check
  of the sign: the \<^verbatim>\<open>db\<close> query parameter when there is one; else, for a scheme
  other than \<^verbatim>\<open>unix\<close>, the path with its slashes removed when that is numeric;
  else the caller default when it is an integer; and 0 when the caller default is absent
  or falsy. A host:port address that parses with an integer caller default \<open>d\<close> has
  \<open>d\<close> under \<^verbatim>\<open>db\<close>.
\<close>

theorem database_resolution:
  "(contains ''://'' server \<and> succeeded (parse_connection_kwargs L server db kwargs ws) \<longrightarrow>
      (\<exists>n. param ''db'' (parse_connection_kwargs L server db kwargs ws) = Some (PInt n)))
   \<and> (contains ''://'' server \<and> split_url_query L server = Inr (u, qs)
        \<and> (url_scheme u = ''unix'' \<or> url_port u = Inr p)
        \<and> query_options L qs ''db'' = Some (PStr q) \<and> int_of_str L q = Some n \<longrightarrow>
      param ''db'' (parse_connection_kwargs L server db kwargs ws) = Some (PInt n))
   \<and> (contains ''://'' server \<and> split_url_query L server = Inr (u, qs)
        \<and> url_scheme u \<noteq> ''unix'' \<and> url_port u = Inr p
        \<and> query_options L qs ''db'' = None \<and> url_path u \<noteq> []
        \<and> int_of_str L (remove_char CHR ''/'' (url_path u)) = Some n \<longrightarrow>
      param ''db'' (parse_connection_kwargs L server db kwargs ws) = Some (PInt n))
   \<and> (contains ''://'' server \<and> split_url_query L server = Inr (u, qs)
        \<and> (url_scheme u = ''unix'' \<or> url_port u = Inr p)
        \<and> query_options L qs ''db'' = None
        \<and> (url_scheme u = ''unix'' \<or> url_path u = []
             \<or> int_of_str L (remove_char CHR ''/'' (url_path u)) = None)
        \<and> db = PInt d \<longrightarrow>
      succeeded (parse_connection_kwargs L server db kwargs ws)
      \<and> param ''db'' (parse_connection_kwargs L server db kwargs ws) = Some (PInt d))
   \<and> (contains ''://'' server \<and> split_url_query L server = Inr (u, qs)
        \<and> (url_scheme u = ''unix'' \<or> url_port u = Inr p)
        \<and> query_options L qs ''db'' = None
        \<and> (url_scheme u = ''unix'' \<or> url_path u = []
             \<or> int_of_str L (remove_char CHR ''/'' (url_path u)) = None)
        \<and> \<not> truthy db \<longrightarrow>
      succeeded (parse_connection_kwargs L server db kwargs ws)
      \<and> param ''db'' (parse_connection_kwargs L server db kwargs ws) = Some (PInt 0))
   \<and> (\<not> contains ''://'' server
        \<and> succeeded (parse_connection_kwargs L server (PInt d) kwargs ws) \<longrightarrow>
      param ''db'' (parse_connection_kwargs L server (PInt d) kwargs ws) = Some (PInt d))"
proof -
  let ?kw = "kwargs(''unix_socket_path'' \<mapsto> PStr '''')"
  let ?R = "parse_connection_kwargs L server db kwargs ws"
  have one: "\<exists>n. param ''db'' ?R = Some (PInt n)"
    if "contains ''://'' server" "succeeded ?R"
    using that url_form_db_is_int [of L server db ?kw ws] by (simp add: parse_url_form)
  have two: "param ''db'' ?R = Some (PInt n)"
    if url: "contains ''://'' server" and sp: "split_url_query L server = Inr (u, qs)"
      and port: "url_scheme u = ''unix'' \<or> url_port u = Inr p"
      and q: "query_options L qs ''db'' = Some (PStr q)" and i: "int_of_str L q = Some n"
    using url_db_selected(2) [OF url sp port, of db n kwargs ws] q i by simp
  have three: "param ''db'' ?R = Some (PInt n)"
    if url: "contains ''://'' server" and sp: "split_url_query L server = Inr (u, qs)"
      and tcp: "url_scheme u \<noteq> ''unix''" and pt: "url_port u = Inr p"
      and q: "query_options L qs ''db'' = None" and ne: "url_path u \<noteq> []"
      and i: "int_of_str L (remove_char CHR ''/'' (url_path u)) = Some n"
  proof -
    have port: "url_scheme u = ''unix'' \<or> url_port u = Inr p" using pt by simp
    show ?thesis
      using url_db_selected(2) [OF url sp port, of db n kwargs ws] q tcp ne i by simp
  qed
  have dflt: "succeeded ?R \<and> param ''db'' ?R = Some (PInt k)"
    if url: "contains ''://'' server" and sp: "split_url_query L server = Inr (u, qs)"
      and port: "url_scheme u = ''unix'' \<or> url_port u = Inr p"
      and q: "query_options L qs ''db'' = None"
      and pth: "url_scheme u = ''unix'' \<or> url_path u = []
                  \<or> int_of_str L (remove_char CHR ''/'' (url_path u)) = None"
      and k: "py_int L (py_or db (PInt 0)) = Inr k" for k
  proof -
    have "(if url_scheme u \<noteq> ''unix'' \<and> url_path u \<noteq> [] then
             (case int_of_str L (remove_char CHR ''/'' (url_path u)) of
                Some n \<Rightarrow> Some (PInt n)
              | None \<Rightarrow> None)
           else None) = None"
      using pth by auto
    then show ?thesis
      using url_db_selected [OF url sp port, of db k kwargs ws] q k by simp
  qed
  have four: "succeeded ?R \<and> param ''db'' ?R = Some (PInt d)"
    if "contains ''://'' server" "split_url_query L server = Inr (u, qs)"
       "url_scheme u = ''unix'' \<or> url_port u = Inr p"
       "query_options L qs ''db'' = None"
       "url_scheme u = ''unix'' \<or> url_path u = []
          \<or> int_of_str L (remove_char CHR ''/'' (url_path u)) = None"
       "db = PInt d"
    using dflt [of d] that by (simp add: py_or_def)
  have five: "succeeded ?R \<and> param ''db'' ?R = Some (PInt 0)"
    if "contains ''://'' server" "split_url_query L server = Inr (u, qs)"
       "url_scheme u = ''unix'' \<or> url_port u = Inr p"
       "query_options L qs ''db'' = None"
       "url_scheme u = ''unix'' \<or> url_path u = []
          \<or> int_of_str L (remove_char CHR ''/'' (url_path u)) = None"
       "\<not> truthy db"
    using dflt [of 0] that by (simp add: py_or_def)
  have six: "param ''db'' (parse_connection_kwargs L server (PInt d) kwargs ws) = Some (PInt d)"
    if "\<not> contains ''://'' server"
       "succeeded (parse_connection_kwargs L server (PInt d) kwargs ws)"
    using that plain_form_param_db [of L server "PInt d" ?kw ws]
    by (simp add: parse_plain_form)
  show ?thesis
    using one two three four five six by blast
qed

theorem database_resolution_witness:
  "contains ''://'' ''redis://localhost?db=-1''
   \<and> query_options stdlib ''db=-1'' ''db'' = Some (PStr ''-1'')
   \<and> int_of_str stdlib ''-1'' = Some (- 1)
   \<and> param ''db'' (parse_connection_kwargs stdlib ''redis://localhost?db=-1'' (PInt 9)
                      Map.empty [])
       = Some (PInt (- 1))
   \<and> int_of_str stdlib (remove_char CHR ''/'' ''/7'') = Some 7
   \<and> param ''db'' (parse_connection_kwargs stdlib ''redis://localhost/7'' (PInt 9)
                      Map.empty [])
       = Some (PInt 7)
   \<and> param ''db'' (parse_connection_kwargs stdlib ''redis://localhost'' (PInt 9)
                      Map.empty [])
       = Some (PInt 9)
   \<and> succeeded (parse_connection_kwargs stdlib ''redis://localhost'' PNone Map.empty [])
   \<and> query_options stdlib '''' ''db'' = None
   \<and> \<not> truthy PNone
   \<and> param ''db'' (parse_connection_kwargs stdlib ''redis://localhost'' PNone Map.empty [])
       = Some (PInt 0)
   \<and> \<not> contains ''://'' ''myhost:9999''
   \<and> succeeded (parse_connection_kwargs stdlib ''myhost:9999'' (PInt 3) Map.empty [])
   \<and> param ''db'' (parse_connection_kwargs stdlib ''myhost:9999'' (PInt 3) Map.empty [])
       = Some (PInt 3)"
proof -
  let ?u = "\<lparr> url_scheme = ''redis'', url_path = '''', url_query = '''',
               url_hostname = Some ''localhost'', url_port = Inr None,
               url_password = None \<rparr>"
  let ?um = "\<lparr> url_scheme = ''redis'', url_path = '''', url_query = ''db=-1'',
                url_hostname = Some ''localhost'', url_port = Inr None,
                url_password = None \<rparr>"
  let ?u7 = "\<lparr> url_scheme = ''redis'', url_path = ''/7'', url_query = '''',
                url_hostname = Some ''localhost'', url_port = Inr None,
                url_password = None \<rparr>"
  have am: "contains ''://'' ''redis://localhost?db=-1''" by simp
  have sm: "split_url_query stdlib ''redis://localhost?db=-1'' = Inr (?um, ''db=-1'')"
    by code_simp
  have pm: "url_scheme ?um = ''unix'' \<or> url_port ?um = Inr None" by simp
  have qm: "query_options stdlib ''db=-1'' ''db'' = Some (PStr ''-1'')" by code_simp
  have im: "int_of_str stdlib ''-1'' = Some (- 1)" by code_simp
  have rm: "param ''db'' (parse_connection_kwargs stdlib ''redis://localhost?db=-1'' (PInt 9)
                      Map.empty []) = Some (PInt (- 1))"
    using database_resolution
            [of "''redis://localhost?db=-1''" stdlib "PInt 9" Map.empty "[]" ?um "''db=-1''"
                None "''-1''" "- 1" 9]
          am sm pm qm im
    by blast
  have a7: "contains ''://'' ''redis://localhost/7''" by simp
  have s7: "split_url_query stdlib ''redis://localhost/7'' = Inr (?u7, '''')" by code_simp
  have t7: "url_scheme ?u7 \<noteq> ''unix''" "url_port ?u7 = Inr None" "url_path ?u7 \<noteq> []"
    by simp_all
  have q: "query_options stdlib '''' ''db'' = None" by code_simp
  have i7: "int_of_str stdlib (remove_char CHR ''/'' ''/7'') = Some 7" by code_simp
  have i7': "int_of_str stdlib (remove_char CHR ''/'' (url_path ?u7)) = Some 7"
    using i7 by simp
  have r7: "param ''db'' (parse_connection_kwargs stdlib ''redis://localhost/7'' (PInt 9)
                      Map.empty []) = Some (PInt 7)"
    using database_resolution
            [of "''redis://localhost/7''" stdlib "PInt 9" Map.empty "[]" ?u7 "''''"
                None "''-1''" 7 9]
          a7 s7 t7 q i7'
    by blast
  have a: "contains ''://'' ''redis://localhost''" by simp
  have s: "split_url_query stdlib ''redis://localhost'' = Inr (?u, '''')" by code_simp
  have p: "url_scheme ?u = ''unix'' \<or> url_port ?u = Inr None" by simp
  have e: "url_scheme ?u = ''unix'' \<or> url_path ?u = []
             \<or> int_of_str stdlib (remove_char CHR ''/'' (url_path ?u)) = None" by simp
  have r9: "param ''db'' (parse_connection_kwargs stdlib ''redis://localhost'' (PInt 9)
                      Map.empty []) = Some (PInt 9)"
    using database_resolution
            [of "''redis://localhost''" stdlib "PInt 9" Map.empty "[]" ?u "''''"
                None "''-1''" 7 9]
          a s p q e
    by blast
  have f: "\<not> truthy PNone" by simp
  have r: "succeeded (parse_connection_kwargs stdlib ''redis://localhost'' PNone Map.empty [])
           \<and> param ''db'' (parse_connection_kwargs stdlib ''redis://localhost'' PNone
                              Map.empty []) = Some (PInt 0)"
    using database_resolution
            [of "''redis://localhost''" stdlib PNone Map.empty "[]" ?u "''''"
                None "''-1''" 7 3]
          a s p q e f
    by blast
  have b: "\<not> contains ''://'' ''myhost:9999''" by simp
  have t: "succeeded (parse_connection_kwargs stdlib ''myhost:9999'' (PInt 3) Map.empty [])"
    by code_simp
  have r': "param ''db'' (parse_connection_kwargs stdlib ''myhost:9999'' (PInt 3) Map.empty [])
              = Some (PInt 3)"
    using database_resolution
            [of "''myhost:9999''" stdlib "PInt 3" Map.empty "[]" ?u "''''"
                None "''-1''" 7 3]
          b t
    by blast
  show ?thesis
    using am qm im rm i7 r7 r9 r q f b t r' by simp
qed

text \<open>
  The claim C3 fails where it says non-negative: no step checks the sign, and the
  URLs \<^verbatim>\<open>redis://localhost/-1\<close> and \<^verbatim>\<open>redis://localhost?db=-1\<close> parse with the
  database \<open>-1\<close>.
\<close>

theorem database_negative_counterexample:
  "succeeded (parse_connection_kwargs stdlib ''redis://localhost/-1'' PNone Map.empty [])
   \<and> param ''db'' (parse_connection_kwargs stdlib ''redis://localhost/-1'' PNone Map.empty [])
       = Some (PInt (- 1))
   \<and> succeeded (parse_connection_kwargs stdlib ''redis://localhost?db=-1'' PNone Map.empty [])
   \<and> param ''db'' (parse_connection_kwargs stdlib ''redis://localhost?db=-1'' PNone
                      Map.empty [])
       = Some (PInt (- 1))"
  by code_simp

subsection \<open>The claims about the scheme and the port\<close>

lemma url_form_tcp_params:
  assumes sp: "split_url_query L server = Inr (u, qs)"
      and tcp: "url_scheme u \<noteq> ''unix''"
      and port: "url_port u = Inr p"
      and ok: "succeeded (url_form L server db kwargs ws)"
  shows "param ''host'' (url_form L server db kwargs ws) = Some (opt_pv (url_hostname u))"
    and "param ''port'' (url_form L server db kwargs ws) = Some (PInt (int_or p 6379))"
    and "param ''password'' (url_form L server db kwargs ws) = Some (opt_pv (url_password u))"
proof -
  obtain u' qs' o1 o2 where sp': "split_url_query L server = Inr (u', qs')"
    and so: "scheme_options L u' (query_options L qs') = Inr o1"
    and ls: "last_shot_db L db o1 = Inr o2"
    using url_form_succeeded [OF ok] by blast
  have eq: "u' = u" "qs' = qs" using sp sp' by simp_all
  obtain o1' where so': "scheme_options L u (query_options L qs) = Inr o1'"
    and h: "o1' ''host'' = Some (opt_pv (url_hostname u))"
    and pt: "o1' ''port'' = Some (PInt (int_or p 6379))"
    and pw: "o1' ''password'' = Some (opt_pv (url_password u))"
    using scheme_options_tcp [OF tcp port, of L "query_options L qs"] by blast
  have o: "o1' = o1" using so so' eq by simp
  obtain n where o2: "o2 = o1(''db'' \<mapsto> PInt n)"
    using last_shot_db_cases [OF ls] by blast
  show "param ''host'' (url_form L server db kwargs ws) = Some (opt_pv (url_hostname u))"
    using url_form_ok(2) [OF sp' so ls, of "''host''" kwargs ws] h o o2 by simp
  show "param ''port'' (url_form L server db kwargs ws) = Some (PInt (int_or p 6379))"
    using url_form_ok(2) [OF sp' so ls, of "''port''" kwargs ws] pt o o2 by simp
  show "param ''password'' (url_form L server db kwargs ws) = Some (opt_pv (url_password u))"
    using url_form_ok(2) [OF sp' so ls, of "''password''" kwargs ws] pw o o2 by simp
qed

lemma url_form_tcp_error:
  assumes sp: "split_url_query L server = Inr (u, qs)"
      and tcp: "url_scheme u \<noteq> ''unix''"
      and port: "url_port u = Inr p"
  shows "succeeded (url_form L server db kwargs ws)
         \<or> raised (url_form L server db kwargs ws) = Some ValueError
         \<or> raised (url_form L server db kwargs ws) = Some TypeError"
proof -
  obtain o1 where so: "scheme_options L u (query_options L qs) = Inr o1"
    using scheme_options_tcp [OF tcp port, of L "query_options L qs"] by blast
  let ?v = "case o1 ''db'' of Some v \<Rightarrow> v | None \<Rightarrow> py_or db (PInt 0)"
  have "py_int L ?v = Inl ValueError \<or> py_int L ?v = Inl TypeError \<or> (\<exists>n. py_int L ?v = Inr n)"
    by (cases ?v) (auto split: option.splits)
  then show ?thesis
    using sp so by (auto simp: url_form_def last_shot_db_def Let_def)
qed

lemma url_form_tcp_class:
  assumes sp: "split_url_query L server = Inr (u, qs)"
      and tcp: "url_scheme u \<noteq> ''unix''"
      and port: "url_port u = Inr p"
      and ok: "succeeded (url_form L server db kwargs ws)"
  shows "param ''connection_class'' (url_form L server db kwargs ws) =
           (if url_scheme u = ''rediss'' then Some (PClass ''SSLConnection'')
            else (case query_options L qs ''connection_class'' of
                    Some v \<Rightarrow> Some v
                  | None \<Rightarrow> kwargs ''connection_class''))"
proof -
  obtain u' qs' o1 o2 where sp': "split_url_query L server = Inr (u', qs')"
    and so: "scheme_options L u' (query_options L qs') = Inr o1"
    and ls: "last_shot_db L db o1 = Inr o2"
    using url_form_succeeded [OF ok] by blast
  have eq: "u' = u" "qs' = qs" using sp sp' by simp_all
  obtain o1' where so': "scheme_options L u (query_options L qs) = Inr o1'"
    and cc: "o1' ''connection_class'' =
                (if url_scheme u = ''rediss'' then Some (PClass ''SSLConnection'')
                 else query_options L qs ''connection_class'')"
    using scheme_options_tcp [OF tcp port, of L "query_options L qs"] by blast
  have o: "o1' = o1" using so so' eq by simp
  obtain n where o2: "o2 = o1(''db'' \<mapsto> PInt n)"
    using last_shot_db_cases [OF ls] by blast
  show ?thesis
    using url_form_ok(2) [OF sp' so ls, of "''connection_class''" kwargs ws] cc o o2
    by (simp add: map_add_def split: option.splits)
qed

text \<open>The parser under a library that reports every scheme as \<^verbatim>\<open>redis\<close>.\<close>

lemma as_redis_sel:
  "url_scheme (as_redis u) = ''redis''"
  "url_path (as_redis u) = url_path u"
  "url_query (as_redis u) = url_query u"
  "url_hostname (as_redis u) = url_hostname u"
  "url_port (as_redis u) = url_port u"
  "url_password (as_redis u) = url_password u"
  by (simp_all add: as_redis_def)

lemma relabel_sel:
  "urlparse (relabel L) s = map_sum id as_redis (urlparse L s)"
  "parse_qs (relabel L) = parse_qs L"
  "int_of_str (relabel L) = int_of_str L"
  by (simp_all add: relabel_def)

lemma relabel_split:
  "split_url_query L s = Inr (u, qs) \<Longrightarrow> split_url_query (relabel L) s = Inr (as_redis u, qs)"
  by (auto simp: split_url_query_def relabel_sel as_redis_sel Let_def
           split: sum.splits if_splits)

lemma relabel_query_options: "query_options (relabel L) qs = query_options L qs"
  by (simp add: query_options_def relabel_sel)

lemma relabel_py_int: "py_int (relabel L) v = py_int L v"
  by (cases v) (simp_all add: relabel_sel)

lemma relabel_last_shot_db: "last_shot_db (relabel L) db opts = last_shot_db L db opts"
  by (simp add: last_shot_db_def relabel_py_int)

lemma relabel_scheme_options:
  "url_scheme u \<noteq> ''unix'' \<Longrightarrow> url_scheme u \<noteq> ''rediss'' \<Longrightarrow>
     scheme_options (relabel L) (as_redis u) opts = scheme_options L u opts"
  by (auto simp: scheme_options_def path_db_def as_redis_sel relabel_sel Let_def
           split: sum.splits)

lemma relabel_url_form:
  assumes sp: "split_url_query L server = Inr (u, qs)"
      and tcp: "url_scheme u \<noteq> ''unix''" and ns: "url_scheme u \<noteq> ''rediss''"
  shows "url_form (relabel L) server db kwargs ws = url_form L server db kwargs ws"
  using sp relabel_split [OF sp] relabel_scheme_options [OF tcp ns, of L]
  by (simp add: url_form_def relabel_query_options relabel_last_shot_db split: sum.splits)

text \<open>
  C2, as the code behaves. The parser has two branches, \<^verbatim>\<open>unix\<close> and everything
  else, and no check of the scheme. For a URL-form address that the URL library accepts
  and whose scheme is not \<^verbatim>\<open>unix\<close>, whatever else the scheme is: the call returns
  parameters or raises the \<^verbatim>\<open>ValueError\<close> or \<^verbatim>\<open>TypeError\<close> of \<^verbatim>\<open>int\<close> on the
  database value, and it returns when there is no \<^verbatim>\<open>db\<close> query parameter and no
  caller default. The parameters returned have the host and the password of the URL,
  the port of the URL when it is present and not zero, and the port 6379 when it is
  absent. The scheme \<^verbatim>\<open>rediss\<close> sets the connection class to \<^verbatim>\<open>SSLConnection\<close>;
  any other scheme leaves the connection class as the query string or the caller gave
  it. For a scheme other than \<^verbatim>\<open>rediss\<close> the result is the one the parser gives when
  the URL library reports the scheme \<^verbatim>\<open>redis\<close> with the same path, query, host,
  port and password.
\<close>

theorem any_scheme_parsed_as_tcp:
  assumes url: "contains ''://'' server"
      and sp: "split_url_query L server = Inr (u, qs)"
      and tcp: "url_scheme u \<noteq> ''unix''"
      and port: "url_port u = Inr p"
  shows
    "(succeeded (parse_connection_kwargs L server db kwargs ws)
        \<or> raised (parse_connection_kwargs L server db kwargs ws) = Some ValueError
        \<or> raised (parse_connection_kwargs L server db kwargs ws) = Some TypeError)
     \<and> (query_options L qs ''db'' = None \<and> db = PNone \<longrightarrow>
          succeeded (parse_connection_kwargs L server db kwargs ws))
     \<and> (succeeded (parse_connection_kwargs L server db kwargs ws) \<longrightarrow>
          param ''host'' (parse_connection_kwargs L server db kwargs ws)
            = Some (opt_pv (url_hostname u))
          \<and> param ''password'' (parse_connection_kwargs L server db kwargs ws)
              = Some (opt_pv (url_password u)))
     \<and> (succeeded (parse_connection_kwargs L server db kwargs ws) \<and> p = None \<longrightarrow>
          param ''port'' (parse_connection_kwargs L server db kwargs ws) = Some (PInt 6379))
     \<and> (succeeded (parse_connection_kwargs L server db kwargs ws) \<and> p = Some n \<and> n \<noteq> 0 \<longrightarrow>
          param ''port'' (parse_connection_kwargs L server db kwargs ws) = Some (PInt n))
     \<and> (succeeded (parse_connection_kwargs L server db kwargs ws)
          \<and> url_scheme u = ''rediss'' \<longrightarrow>
          param ''connection_class'' (parse_connection_kwargs L server db kwargs ws)
            = Some (PClass ''SSLConnection''))
     \<and> (succeeded (parse_connection_kwargs L server db kwargs ws)
          \<and> url_scheme u \<noteq> ''rediss'' \<longrightarrow>
          param ''connection_class'' (parse_connection_kwargs L server db kwargs ws)
            = (case query_options L qs ''connection_class'' of
                 Some v \<Rightarrow> Some v
               | None \<Rightarrow> kwargs ''connection_class''))
     \<and> (url_scheme u \<noteq> ''rediss'' \<longrightarrow>
          parse_connection_kwargs (relabel L) server db kwargs ws
            = parse_connection_kwargs L server db kwargs ws)"
proof -
  let ?kw = "kwargs(''unix_socket_path'' \<mapsto> PStr '''')"
  let ?F = "url_form L server db ?kw ws"
  have R: "parse_connection_kwargs L server db kwargs ws = ?F"
    using url by (rule parse_url_form)
  have R': "parse_connection_kwargs (relabel L) server db kwargs ws
              = url_form (relabel L) server db ?kw ws"
    using url by (rule parse_url_form)
  have one: "succeeded ?F \<or> raised ?F = Some ValueError \<or> raised ?F = Some TypeError"
    using sp tcp port by (rule url_form_tcp_error)
  have two: "succeeded ?F"
    if q: "query_options L qs ''db'' = None" and d: "db = PNone"
  proof -
    have p': "url_scheme u = ''unix'' \<or> url_port u = Inr p" using port by simp
    obtain o1 where so: "scheme_options L u (query_options L qs) = Inr o1"
      and odb: "o1 ''db'' =
               (case query_options L qs ''db'' of
                  Some v \<Rightarrow> Some v
                | None \<Rightarrow>
                    if url_scheme u \<noteq> ''unix'' \<and> url_path u \<noteq> [] then
                      (case int_of_str L (remove_char CHR ''/'' (url_path u)) of
                         Some n \<Rightarrow> Some (PInt n)
                       | None \<Rightarrow> None)
                    else None)"
      using scheme_options_db [OF p', of L "query_options L qs"] by blast
    have "o1 ''db'' = None \<or> (\<exists>n. o1 ''db'' = Some (PInt n))"
      using odb q by (auto split: option.splits)
    then obtain m where
      "py_int L (case o1 ''db'' of Some v \<Rightarrow> v | None \<Rightarrow> py_or db (PInt 0)) = Inr m"
      using d by (auto simp: py_or_def)
    then show ?thesis by (rule url_form_db(1) [OF sp so])
  qed
  have all: "param ''host'' ?F = Some (opt_pv (url_hostname u))
          \<and> param ''password'' ?F = Some (opt_pv (url_password u))
          \<and> param ''port'' ?F = Some (PInt (int_or p 6379))
          \<and> param ''connection_class'' ?F =
               (if url_scheme u = ''rediss'' then Some (PClass ''SSLConnection'')
                else (case query_options L qs ''connection_class'' of
                        Some v \<Rightarrow> Some v
                      | None \<Rightarrow> kwargs ''connection_class''))"
    if ok: "succeeded ?F"
    using url_form_tcp_params [OF sp tcp port ok] url_form_tcp_class [OF sp tcp port ok]
    by (simp split: option.splits)
  have host_pw: "param ''host'' ?F = Some (opt_pv (url_hostname u))
          \<and> param ''password'' ?F = Some (opt_pv (url_password u))"
    if "succeeded ?F"
    using all [OF that] by simp
  have port_none: "param ''port'' ?F = Some (PInt 6379)"
    if "succeeded ?F" "p = None"
    using all [OF that(1)] that(2) by simp
  have port_some: "param ''port'' ?F = Some (PInt n)"
    if "succeeded ?F" "p = Some n" "n \<noteq> 0"
    using all [OF that(1)] that(2,3) by simp
  have cls_ssl: "param ''connection_class'' ?F = Some (PClass ''SSLConnection'')"
    if "succeeded ?F" "url_scheme u = ''rediss''"
    using all [OF that(1)] that(2) by simp
  have cls_other: "param ''connection_class'' ?F =
               (case query_options L qs ''connection_class'' of
                  Some v \<Rightarrow> Some v
                | None \<Rightarrow> kwargs ''connection_class'')"
    if "succeeded ?F" "url_scheme u \<noteq> ''rediss''"
    using all [OF that(1)] that(2) by simp
  have same: "url_form (relabel L) server db ?kw ws = ?F"
    if "url_scheme u \<noteq> ''rediss''"
    using sp tcp that by (rule relabel_url_form)
  show ?thesis
    unfolding R R'
    using one two host_pw port_none port_some cls_ssl cls_other same
    by blast
qed

theorem any_scheme_parsed_as_tcp_witness:
  "contains ''://'' ''ftp://example.com:21/3''
   \<and> query_options stdlib '''' ''db'' = None
   \<and> succeeded (parse_connection_kwargs stdlib ''ftp://example.com:21/3'' PNone Map.empty [])
   \<and> param ''host'' (parse_connection_kwargs stdlib ''ftp://example.com:21/3'' PNone
                        Map.empty [])
       = Some (PStr ''example.com'')
   \<and> param ''port'' (parse_connection_kwargs stdlib ''ftp://example.com:21/3'' PNone
                        Map.empty [])
       = Some (PInt 21)
   \<and> param ''password'' (parse_connection_kwargs stdlib ''ftp://example.com:21/3'' PNone
                            Map.empty [])
       = Some PNone
   \<and> param ''connection_class'' (parse_connection_kwargs stdlib ''ftp://example.com:21/3''
                                    PNone Map.empty [])
       = None
   \<and> parse_connection_kwargs (relabel stdlib) ''ftp://example.com:21/3'' PNone Map.empty []
       = parse_connection_kwargs stdlib ''ftp://example.com:21/3'' PNone Map.empty []
   \<and> succeeded (parse_connection_kwargs stdlib ''gopher://example.com'' PNone Map.empty [])
   \<and> param ''port'' (parse_connection_kwargs stdlib ''gopher://example.com'' PNone
                        Map.empty [])
       = Some (PInt 6379)
   \<and> succeeded (parse_connection_kwargs stdlib ''rediss://h/0'' PNone Map.empty [])
   \<and> param ''connection_class'' (parse_connection_kwargs stdlib ''rediss://h/0'' PNone
                                    Map.empty [])
       = Some (PClass ''SSLConnection'')"
proof -
  let ?u = "\<lparr> url_scheme = ''ftp'', url_path = ''/3'', url_query = '''',
               url_hostname = Some ''example.com'', url_port = Inr (Some 21),
               url_password = None \<rparr>"
  let ?g = "\<lparr> url_scheme = ''gopher'', url_path = '''', url_query = '''',
               url_hostname = Some ''example.com'', url_port = Inr None,
               url_password = None \<rparr>"
  let ?r = "\<lparr> url_scheme = ''rediss'', url_path = ''/0'', url_query = '''',
               url_hostname = Some ''h'', url_port = Inr None,
               url_password = None \<rparr>"
  have q: "query_options stdlib '''' ''db'' = None" by code_simp
  have qc: "query_options stdlib '''' ''connection_class'' = None" by code_simp
  have a: "contains ''://'' ''ftp://example.com:21/3''" by simp
  have s: "split_url_query stdlib ''ftp://example.com:21/3'' = Inr (?u, '''')" by code_simp
  have t: "url_scheme ?u \<noteq> ''unix''" by simp
  have p: "url_port ?u = Inr (Some 21)" by simp
  note th = any_scheme_parsed_as_tcp [OF a s t p, of PNone Map.empty "[]" 21]
  have ok: "succeeded (parse_connection_kwargs stdlib ''ftp://example.com:21/3'' PNone
                         Map.empty [])"
    using th q by blast
  have r1: "param ''host'' (parse_connection_kwargs stdlib ''ftp://example.com:21/3'' PNone
                        Map.empty []) = Some (PStr ''example.com'')
      \<and> param ''port'' (parse_connection_kwargs stdlib ''ftp://example.com:21/3'' PNone
                        Map.empty []) = Some (PInt 21)
      \<and> param ''password'' (parse_connection_kwargs stdlib ''ftp://example.com:21/3'' PNone
                            Map.empty []) = Some PNone
      \<and> param ''connection_class'' (parse_connection_kwargs stdlib ''ftp://example.com:21/3''
                                    PNone Map.empty []) = None
      \<and> parse_connection_kwargs (relabel stdlib) ''ftp://example.com:21/3'' PNone Map.empty []
          = parse_connection_kwargs stdlib ''ftp://example.com:21/3'' PNone Map.empty []"
    using th ok qc by simp
  have ag: "contains ''://'' ''gopher://example.com''" by simp
  have sg: "split_url_query stdlib ''gopher://example.com'' = Inr (?g, '''')" by code_simp
  have tg: "url_scheme ?g \<noteq> ''unix''" by simp
  have pg: "url_port ?g = Inr None" by simp
  note thg = any_scheme_parsed_as_tcp [OF ag sg tg pg, of PNone Map.empty "[]" 21]
  have okg: "succeeded (parse_connection_kwargs stdlib ''gopher://example.com'' PNone
                          Map.empty [])"
    using thg q by blast
  have r2: "param ''port'' (parse_connection_kwargs stdlib ''gopher://example.com'' PNone
                        Map.empty []) = Some (PInt 6379)"
    using thg okg by simp
  have ar: "contains ''://'' ''rediss://h/0''" by simp
  have sr: "split_url_query stdlib ''rediss://h/0'' = Inr (?r, '''')" by code_simp
  have tr: "url_scheme ?r \<noteq> ''unix''" by simp
  have pr: "url_port ?r = Inr None" by simp
  note thr = any_scheme_parsed_as_tcp [OF ar sr tr pr, of PNone Map.empty "[]" 21]
  have okr: "succeeded (parse_connection_kwargs stdlib ''rediss://h/0'' PNone Map.empty [])"
    using thr q by blast
  have r3: "param ''connection_class'' (parse_connection_kwargs stdlib ''rediss://h/0'' PNone
                                    Map.empty []) = Some (PClass ''SSLConnection'')"
    using thr okr by simp
  show ?thesis
    using a q ok r1 okg r2 okr r3 by simp
qed

text \<open>
  The claim C2 fails: the address \<^verbatim>\<open>http://example.com\<close> has the scheme
  \<^verbatim>\<open>http\<close>, and parsing returns parameters for a TCP connection.
\<close>

theorem unknown_scheme_accepted_counterexample:
  "contains ''://'' ''http://example.com''
   \<and> map_sum id url_scheme (urlparse stdlib ''http://example.com'') = Inr ''http''
   \<and> succeeded (parse_connection_kwargs stdlib ''http://example.com'' PNone Map.empty [])
   \<and> raised (parse_connection_kwargs stdlib ''http://example.com'' PNone Map.empty []) = None
   \<and> param ''host'' (parse_connection_kwargs stdlib ''http://example.com'' PNone Map.empty [])
       = Some (PStr ''example.com'')
   \<and> param ''port'' (parse_connection_kwargs stdlib ''http://example.com'' PNone Map.empty [])
       = Some (PInt 6379)
   \<and> param ''db'' (parse_connection_kwargs stdlib ''http://example.com'' PNone Map.empty [])
       = Some (PInt 0)"
  by code_simp

text \<open>
  C8, as the code behaves. In the URL form the port is \<^verbatim>\<open>int(url.port or 6379)\<close>,
  and 0 is falsy: an address that gives the port 0 parses with the port 6379. In the
  host:port form the port is \<^verbatim>\<open>int(port)\<close> and 0 stays 0. The claim asks for 0 in
  both forms.
\<close>

theorem url_port_zero_replaced_by_default:
  "(contains ''://'' server \<and> split_url_query L server = Inr (u, qs)
      \<and> url_scheme u \<noteq> ''unix'' \<and> url_port u = Inr (Some 0)
      \<and> succeeded (parse_connection_kwargs L server db kwargs ws) \<longrightarrow>
    param ''port'' (parse_connection_kwargs L server db kwargs ws) = Some (PInt 6379))
   \<and> (\<not> contains ''://'' server \<and> CHR '':'' \<in> set server
        \<and> int_of_str L (snd (rsplit1 CHR '':'' server)) = Some 0 \<longrightarrow>
      param ''port'' (parse_connection_kwargs L server db kwargs ws) = Some (PInt 0))"
proof -
  let ?kw = "kwargs(''unix_socket_path'' \<mapsto> PStr '''')"
  have one: "param ''port'' (parse_connection_kwargs L server db kwargs ws) = Some (PInt 6379)"
    if url: "contains ''://'' server" and sp: "split_url_query L server = Inr (u, qs)"
      and tcp: "url_scheme u \<noteq> ''unix''" and port: "url_port u = Inr (Some 0)"
      and ok: "succeeded (parse_connection_kwargs L server db kwargs ws)"
  proof -
    have ok': "succeeded (url_form L server db ?kw ws)"
      using ok url by (simp add: parse_url_form)
    show ?thesis
      using url_form_tcp_params(2) [OF sp tcp port ok'] url by (simp add: parse_url_form)
  qed
  have two: "param ''port'' (parse_connection_kwargs L server db kwargs ws) = Some (PInt 0)"
    if "\<not> contains ''://'' server" "CHR '':'' \<in> set server"
       "int_of_str L (snd (rsplit1 CHR '':'' server)) = Some 0"
    using that by (simp add: parse_plain_form plain_form_def)
  show ?thesis
    using one two by blast
qed

theorem url_port_zero_replaced_by_default_witness:
  "contains ''://'' ''redis://host:0''
   \<and> map_sum id url_port (urlparse stdlib ''redis://host:0'') = Inr (Inr (Some 0))
   \<and> succeeded (parse_connection_kwargs stdlib ''redis://host:0'' PNone Map.empty [])
   \<and> param ''port'' (parse_connection_kwargs stdlib ''redis://host:0'' PNone Map.empty [])
       = Some (PInt 6379)
   \<and> \<not> contains ''://'' ''myhost:0''
   \<and> CHR '':'' \<in> set ''myhost:0''
   \<and> int_of_str stdlib (snd (rsplit1 CHR '':'' ''myhost:0'')) = Some 0
   \<and> param ''port'' (parse_connection_kwargs stdlib ''myhost:0'' PNone Map.empty [])
       = Some (PInt 0)"
proof -
  let ?u = "\<lparr> url_scheme = ''redis'', url_path = '''', url_query = '''',
               url_hostname = Some ''host'', url_port = Inr (Some 0),
               url_password = None \<rparr>"
  have a: "contains ''://'' ''redis://host:0''" by simp
  have s: "split_url_query stdlib ''redis://host:0'' = Inr (?u, '''')" by code_simp
  have t: "url_scheme ?u \<noteq> ''unix''" by simp
  have p: "url_port ?u = Inr (Some 0)" by simp
  have p': "map_sum id url_port (urlparse stdlib ''redis://host:0'') = Inr (Inr (Some 0))"
    by code_simp
  have ok: "succeeded (parse_connection_kwargs stdlib ''redis://host:0'' PNone Map.empty [])"
    by code_simp
  have r: "param ''port'' (parse_connection_kwargs stdlib ''redis://host:0'' PNone Map.empty [])
             = Some (PInt 6379)"
    using url_port_zero_replaced_by_default
            [of "''redis://host:0''" stdlib ?u "''''" PNone Map.empty "[]"] a s t p ok
    by blast
  have b: "\<not> contains ''://'' ''myhost:0''" by simp
  have c: "CHR '':'' \<in> set ''myhost:0''" by simp
  have i: "int_of_str stdlib (snd (rsplit1 CHR '':'' ''myhost:0'')) = Some 0" by code_simp
  have r': "param ''port'' (parse_connection_kwargs stdlib ''myhost:0'' PNone Map.empty [])
              = Some (PInt 0)"
    using url_port_zero_replaced_by_default
            [of "''myhost:0''" stdlib ?u "''''" PNone Map.empty "[]"] b c i
    by blast
  show ?thesis
    using a p' ok r b c i r' by simp
qed

subsection \<open>Parsing twice\<close>

lemma rename_deprecated_fst_cong:
  "fst st = fst st' \<Longrightarrow>
     fst (rename_deprecated old new st) = fst (rename_deprecated old new st')"
  by (simp add: rename_deprecated_def split: option.splits)

lemma url_form_fst_independent:
  "fst (url_form L server db kwargs ws) = fst (url_form L server db kwargs ws')"
proof -
  have "fst (rename_deprecated ''errors'' ''encoding_errors''
               (rename_deprecated ''charset'' ''encoding'' (kw, ws)))
        = fst (rename_deprecated ''errors'' ''encoding_errors''
                 (rename_deprecated ''charset'' ''encoding'' (kw, ws')))" for kw :: kwargs
    by (intro rename_deprecated_fst_cong) simp
  then show ?thesis
    by (simp add: url_form_def Let_def split: sum.splits prod.splits)
qed

lemma parse_fst_independent:
  "fst (parse_connection_kwargs L server db kwargs ws)
     = fst (parse_connection_kwargs L server db kwargs ws')"
  using url_form_fst_independent [of L server db _ ws ws']
  by (simp add: parse_connection_kwargs_def Let_def)

text \<open>
  C9. Parsing is a function of the address, the caller default and the options: the
  only state it touches is the warning channel, which it writes and never reads. So a
  second parse of the same address with the same arguments, started from the channel
  the first parse left, gives the same result (the same parameters, or the same
  exception) as the first.
\<close>

theorem parsing_twice_gives_equal_results:
  "fst (parse_connection_kwargs L server db kwargs
          (snd (parse_connection_kwargs L server db kwargs ws)))
     = fst (parse_connection_kwargs L server db kwargs ws)"
  by (rule parse_fst_independent)

end
